theory Spec2Isabelle
  imports Complex_Main "HOL-Library.Log_Nat"
begin

section \<open>Python values, exceptions and the outside world\<close>

text \<open>
  A Python float is a finite value (kept as the rational it denotes), a negative zero,
  an infinity or a NaN.
\<close>

datatype py_float = Finite rat | NegZero | PosInf | NegInf | NaN

text \<open>
  The values that travel between the program and the vendor SDK: what a decoded JSON
  response can hold, and what the program passes as keyword arguments. A dictionary is
  an association list, read at the first entry for a key.
\<close>

datatype pyval =
    PNone
  | PBool bool
  | PInt int
  | PFloat py_float
  | PStr string
  | PList "pyval list"
  | PDict "(string \<times> pyval) list"

text \<open>
  Exceptions derived from \<open>Exception\<close>, the only ones an \<open>except Exception\<close> clause
  catches. \<open>KeyError\<close> carries the missing key, \<open>ValueError\<close> its message;
  \<open>BinanceAPIException\<close> and \<open>OtherException\<close> (class name and message) are what the
  vendor SDK and the transport below it raise.
\<close>

datatype py_error =
    ValueError string
  | KeyError string
  | TypeError
  | AttributeError
  | ZeroDivisionError
  | OverflowError
  | BinanceAPIException string
  | OtherException string string

text \<open>
  A piece of a formatted message: a literal, \<open>str(v)\<close> of a value as an f-string
  inserts it, a value under a format specification (\<open>{v:<12}\<close>), \<open>str(v)\<close> under a
  format specification, or \<open>str(e)\<close> of an exception.
\<close>

datatype frag = Lit string | Str pyval | Fmt pyval string | StrFmt pyval string | ErrStr py_error

datatype level = INFO | WARNING | ERROR

text \<open>A call of a method of the vendor SDK: its name and its keyword arguments.\<close>

datatype request = Request string "(string \<times> pyval) list"

text \<open>
  The observable effects of the program: the calls made to the SDK, in order, the calls
  made to loggers (logger name, level, message) and the lines printed.
\<close>

record world =
  trace :: "request list"
  logs :: "(string \<times> level \<times> frag list) list"
  out :: "frag list list"

text \<open>
  The remote side answers a call with a value or raises; its answer may depend on
  everything it was asked before.
\<close>

type_synonym remote = "request list \<Rightarrow> request \<Rightarrow> py_error + pyval"

definition sdk_call :: "remote \<Rightarrow> request \<Rightarrow> world \<Rightarrow> (py_error + pyval) \<times> world" where
  "sdk_call rem rq w = (rem (trace w) rq, w\<lparr>trace := trace w @ [rq]\<rparr>)"

definition log_msg :: "string \<Rightarrow> level \<Rightarrow> frag list \<Rightarrow> world \<Rightarrow> world" where
  "log_msg name lvl msg w = w\<lparr>logs := logs w @ [(name, lvl, msg)]\<rparr>"

definition py_print :: "frag list \<Rightarrow> world \<Rightarrow> world" where
  "py_print line w = w\<lparr>out := out w @ [line]\<rparr>"

section \<open>Python built-ins\<close>

subsection \<open>Strings\<close>

text \<open>
  Strings are modelled on ASCII: a \<open>char\<close> below 128 is the code point of that number,
  and the functions below are the Python ones on strings of such characters only. Beyond
  ASCII, Python has more blanks, more decimal digits and more letters than the functions
  here know; a statement about text that a user types is made for ASCII text.
\<close>

definition is_ascii :: "char \<Rightarrow> bool" where
  "is_ascii c = ((of_char c :: nat) < 128)"

text \<open>
  The ASCII characters that \<open>str.strip\<close> and \<open>str.split\<close> take for whitespace: 9 to 13
  and 28 to 32.
\<close>

definition py_isspace :: "char \<Rightarrow> bool" where
  "py_isspace c = (let n = (of_char c :: nat) in (9 \<le> n \<and> n \<le> 13) \<or> (28 \<le> n \<and> n \<le> 32))"

definition py_strip :: "string \<Rightarrow> string" where
  "py_strip s = rev (dropWhile py_isspace (rev (dropWhile py_isspace s)))"

text \<open>
  \<open>float\<close> and \<open>int\<close> drop fewer characters around an ASCII numeral: 9 to 13 and the
  space, not 28 to 31.
\<close>

definition numeral_space :: "char \<Rightarrow> bool" where
  "numeral_space c = (let n = (of_char c :: nat) in (9 \<le> n \<and> n \<le> 13) \<or> n = 32)"

definition numeral_strip :: "string \<Rightarrow> string" where
  "numeral_strip s = rev (dropWhile numeral_space (rev (dropWhile numeral_space s)))"

text \<open>\<open>s.split()\<close>: the maximal runs of non-whitespace; \<open>cur\<close> is the run being read, reversed.\<close>

fun split_from :: "string \<Rightarrow> string \<Rightarrow> string list" where
  "split_from cur [] = (if cur = [] then [] else [rev cur])"
| "split_from cur (c # cs) =
     (if py_isspace c
      then (if cur = [] then split_from [] cs else rev cur # split_from [] cs)
      else split_from (c # cur) cs)"

definition py_split :: "string \<Rightarrow> string list" where
  "py_split s = split_from [] s"

definition lower_char :: "char \<Rightarrow> char" where
  "lower_char c = (let n = (of_char c :: nat) in if 65 \<le> n \<and> n \<le> 90 then char_of (n + 32) else c)"

definition upper_char :: "char \<Rightarrow> char" where
  "upper_char c = (let n = (of_char c :: nat) in if 97 \<le> n \<and> n \<le> 122 then char_of (n - 32) else c)"

definition py_lower :: "string \<Rightarrow> string" where
  "py_lower s = map lower_char s"

definition py_upper :: "string \<Rightarrow> string" where
  "py_upper s = map upper_char s"

definition is_digit :: "char \<Rightarrow> bool" where
  "is_digit c = (let n = (of_char c :: nat) in 48 \<le> n \<and> n \<le> 57)"

definition digit_val :: "char \<Rightarrow> nat" where
  "digit_val c = of_char c - 48"

definition digits_val :: "string \<Rightarrow> nat" where
  "digits_val ds = foldl (\<lambda>a c. 10 * a + digit_val c) 0 ds"

fun string_of_nat :: "nat \<Rightarrow> string" where
  "string_of_nat n =
     (if n < 10 then [char_of (48 + n)]
      else string_of_nat (n div 10) @ [char_of (48 + n mod 10)])"

declare string_of_nat.simps [simp del]

definition string_of_int :: "int \<Rightarrow> string" where
  "string_of_int i = (if i < 0 then CHR ''-'' # string_of_nat (nat (- i)) else string_of_nat (nat i))"

text \<open>
  \<open>repr\<close> of a string, as it appears in the messages of the built-ins: exact for
  strings without quotes, backslashes and control characters.
\<close>

definition py_repr :: "string \<Rightarrow> string" where
  "py_repr s = [CHR 0x27] @ s @ [CHR 0x27]"

text \<open>
  In a numeric literal an underscore stands between two digits; \<open>prev\<close> is the
  character before.
\<close>

fun underscores_ok :: "char \<Rightarrow> string \<Rightarrow> bool" where
  "underscores_ok prev [] = (prev \<noteq> CHR ''_'')"
| "underscores_ok prev (c # cs) =
     ((if c = CHR ''_'' then is_digit prev
       else if prev = CHR ''_'' then is_digit c else True)
      \<and> underscores_ok c cs)"

definition split_sign :: "string \<Rightarrow> bool \<times> string" where
  "split_sign s =
     (case s of
        [] \<Rightarrow> (False, [])
      | c # r \<Rightarrow> if c = CHR ''-'' then (True, r) else if c = CHR ''+'' then (False, r) else (False, s))"

subsection \<open>Floats\<close>

text \<open>
  The binary64 value nearest to a rational: \<open>ilog2 x\<close> is the exponent \<open>e\<close> with
  \<open>2 ^ e \<le> x < 2 ^ (e + 1)\<close> for positive \<open>x\<close>; the result is a multiple of
  \<open>2 ^ (e - 52)\<close>, or of \<open>2 ^ (- 1074)\<close> in the subnormal range, ties going to the even
  multiple.
\<close>

definition ilog2 :: "rat \<Rightarrow> int" where
  "ilog2 x = (let (p, q) = quotient_of x; e = bitlen p - bitlen q
              in if 2 powi e \<le> x then e else e - 1)"

definition round_half_even :: "rat \<Rightarrow> int" where
  "round_half_even x =
     (let f = \<lfloor>x\<rfloor>; d = x - of_int f
      in if d < 1 / 2 then f else if 1 / 2 < d then f + 1 else if even f then f else f + 1)"

definition round_to_double :: "rat \<Rightarrow> rat" where
  "round_to_double x =
     (if x = 0 then 0
      else let e = max (ilog2 \<bar>x\<bar>) (- 1022); u = 2 powi (e - 52)
           in sgn x * of_int (round_half_even (\<bar>x\<bar> / u)) * u)"

text \<open>The float of a nonzero exact value: overflow gives an infinity, underflow a signed zero.\<close>

definition to_float :: "rat \<Rightarrow> py_float" where
  "to_float x =
     (let r = round_to_double x
      in if 2 powi 1024 \<le> \<bar>r\<bar> then (if 0 < x then PosInf else NegInf)
         else if r = 0 \<and> x < 0 then NegZero
         else Finite r)"

text \<open>\<open>f != 0\<close>, \<open>f > 0\<close> and \<open>abs(f)\<close>.\<close>

definition float_ne_zero :: "py_float \<Rightarrow> bool" where
  "float_ne_zero f = (case f of Finite q \<Rightarrow> q \<noteq> 0 | NegZero \<Rightarrow> False | _ \<Rightarrow> True)"

definition float_gt_zero :: "py_float \<Rightarrow> bool" where
  "float_gt_zero f = (case f of Finite q \<Rightarrow> 0 < q | PosInf \<Rightarrow> True | _ \<Rightarrow> False)"

definition float_abs :: "py_float \<Rightarrow> py_float" where
  "float_abs f = (case f of Finite q \<Rightarrow> Finite \<bar>q\<bar> | NegZero \<Rightarrow> Finite 0 | NegInf \<Rightarrow> PosInf | _ \<Rightarrow> f)"

text \<open>The exponent part of a decimal literal: nothing, or \<open>e\<close>, a sign and digits.\<close>

definition parse_exponent :: "string \<Rightarrow> int option" where
  "parse_exponent s =
     (case s of
        [] \<Rightarrow> Some 0
      | c # r \<Rightarrow>
          if c = CHR ''e'' \<or> c = CHR ''E''
          then (let (neg, ds) = split_sign r
                in if ds \<noteq> [] \<and> list_all is_digit ds
                   then Some (if neg then - int (digits_val ds) else int (digits_val ds))
                   else None)
          else None)"

text \<open>
  An unsigned decimal literal and the value it denotes: digits, a point, digits (one of
  the two digit strings may be empty), an exponent.
\<close>

definition parse_decimal :: "string \<Rightarrow> rat option" where
  "parse_decimal s =
     (let ip = takeWhile is_digit s; r1 = dropWhile is_digit s;
          (fp, r2) = (case r1 of
                        [] \<Rightarrow> ([], [])
                      | c # r \<Rightarrow> if c = CHR ''.'' then (takeWhile is_digit r, dropWhile is_digit r)
                                else ([], r1))
      in if ip = [] \<and> fp = [] then None
         else case parse_exponent r2 of
                None \<Rightarrow> None
              | Some ex \<Rightarrow> Some (of_nat (digits_val (ip @ fp)) * 10 powi (ex - int (length fp))))"

text \<open>\<open>float(s)\<close> for a string.\<close>

definition float_of_string :: "string \<Rightarrow> py_error + py_float" where
  "float_of_string s =
     (let t = numeral_strip s;
          (neg, body) = split_sign (filter (\<lambda>c. c \<noteq> CHR ''_'') t);
          lb = py_lower body;
          bad = Inl (ValueError (''could not convert string to float: '' @ py_repr s))
      in if \<not> underscores_ok (CHR 0x00) t then bad
         else if lb = ''inf'' \<or> lb = ''infinity'' then Inr (if neg then NegInf else PosInf)
         else if lb = ''nan'' then Inr NaN
         else case parse_decimal body of
                None \<Rightarrow> bad
              | Some q \<Rightarrow>
                  Inr (if q = 0 then (if neg then NegZero else Finite 0)
                       else to_float (if neg then - q else q)))"

text \<open>The conversion of an integer to a float, which raises where the float would be infinite.\<close>

definition int_to_float :: "int \<Rightarrow> py_error + py_float" where
  "int_to_float n =
     (case to_float (of_int n) of
        PosInf \<Rightarrow> Inl OverflowError
      | NegInf \<Rightarrow> Inl OverflowError
      | f \<Rightarrow> Inr f)"

text \<open>\<open>a / b\<close> on integers: the nearest float to the quotient.\<close>

definition py_truediv :: "int \<Rightarrow> int \<Rightarrow> py_error + py_float" where
  "py_truediv a b =
     (if b = 0 then Inl ZeroDivisionError
      else if a = 0 then Inr (if b < 0 then NegZero else Finite 0)
      else case to_float (of_int a / of_int b) of
             PosInf \<Rightarrow> Inl OverflowError
           | NegInf \<Rightarrow> Inl OverflowError
           | f \<Rightarrow> Inr f)"

definition float_is_neg :: "py_float \<Rightarrow> bool" where
  "float_is_neg f = (case f of Finite q \<Rightarrow> q < 0 | NegZero \<Rightarrow> True | NegInf \<Rightarrow> True | _ \<Rightarrow> False)"

definition float_is_zero :: "py_float \<Rightarrow> bool" where
  "float_is_zero f = (case f of Finite q \<Rightarrow> q = 0 | NegZero \<Rightarrow> True | _ \<Rightarrow> False)"

definition float_is_inf :: "py_float \<Rightarrow> bool" where
  "float_is_inf f = (case f of PosInf \<Rightarrow> True | NegInf \<Rightarrow> True | _ \<Rightarrow> False)"

text \<open>\<open>x * y\<close> on floats.\<close>

definition py_float_mul :: "py_float \<Rightarrow> py_float \<Rightarrow> py_float" where
  "py_float_mul x y =
     (if x = NaN \<or> y = NaN then NaN
      else if float_is_inf x \<or> float_is_inf y
      then (if float_is_zero x \<or> float_is_zero y then NaN
            else if float_is_neg x = float_is_neg y then PosInf else NegInf)
      else if float_is_zero x \<or> float_is_zero y
      then (if float_is_neg x = float_is_neg y then Finite 0 else NegZero)
      else case (x, y) of
             (Finite p, Finite q) \<Rightarrow> to_float (p * q)
           | _ \<Rightarrow> NaN)"

text \<open>
  \<open>format(f, '.2f')\<close>: the decimal with two fractional digits nearest to the value,
  a tie going to the even last digit; \<open>two_decimals n\<close> writes \<open>n\<close> hundredths.
\<close>

definition two_decimals :: "nat \<Rightarrow> string" where
  "two_decimals n =
     string_of_nat (n div 100) @ ''.'' @ [char_of (48 + n mod 100 div 10), char_of (48 + n mod 10)]"

definition format_2f :: "py_float \<Rightarrow> string" where
  "format_2f f =
     (case f of
        NaN \<Rightarrow> ''nan''
      | PosInf \<Rightarrow> ''inf''
      | NegInf \<Rightarrow> ''-inf''
      | NegZero \<Rightarrow> ''-0.00''
      | Finite q \<Rightarrow>
          (if q < 0 then ''-'' else []) @ two_decimals (nat (round_half_even (\<bar>q\<bar> * 100))))"

text \<open>\<open>float(v)\<close> for a value.\<close>

fun py_float_of :: "pyval \<Rightarrow> py_error + py_float" where
  "py_float_of (PStr s) = float_of_string s"
| "py_float_of (PFloat f) = Inr f"
| "py_float_of (PInt n) = int_to_float n"
| "py_float_of (PBool b) = Inr (Finite (if b then 1 else 0))"
| "py_float_of PNone = Inl TypeError"
| "py_float_of (PList xs) = Inl TypeError"
| "py_float_of (PDict kvs) = Inl TypeError"

text \<open>\<open>int(s)\<close> for a string: a sign and digits, of which there are at most 4300.\<close>

definition int_of_string :: "string \<Rightarrow> py_error + int" where
  "int_of_string s =
     (let t = numeral_strip s;
          (neg, ds) = split_sign (filter (\<lambda>c. c \<noteq> CHR ''_'') t)
      in if underscores_ok (CHR 0x00) t \<and> ds \<noteq> [] \<and> list_all is_digit ds \<and> length ds \<le> 4300
         then Inr (if neg then - int (digits_val ds) else int (digits_val ds))
         else Inl (ValueError (''invalid literal for int() with base 10: '' @ py_repr s)))"

subsection \<open>Values\<close>

text \<open>\<open>v[key]\<close> with a string key.\<close>

fun py_getitem :: "pyval \<Rightarrow> string \<Rightarrow> py_error + pyval" where
  "py_getitem (PDict kvs) key = (case map_of kvs key of Some x \<Rightarrow> Inr x | None \<Rightarrow> Inl (KeyError key))"
| "py_getitem _ key = Inl TypeError"

text \<open>\<open>v.get(key, default)\<close>.\<close>

fun py_get :: "pyval \<Rightarrow> string \<Rightarrow> pyval \<Rightarrow> py_error + pyval" where
  "py_get (PDict kvs) key dflt = Inr (case map_of kvs key of Some x \<Rightarrow> x | None \<Rightarrow> dflt)"
| "py_get _ key dflt = Inl AttributeError"

text \<open>What \<open>for x in v\<close> runs through: the elements of a list, the keys of a dict, the characters of a string.\<close>

fun py_iter :: "pyval \<Rightarrow> py_error + pyval list" where
  "py_iter (PList xs) = Inr xs"
| "py_iter (PDict kvs) = Inr (map (\<lambda>kv. PStr (fst kv)) kvs)"
| "py_iter (PStr s) = Inr (map (\<lambda>c. PStr [c]) s)"
| "py_iter _ = Inl TypeError"

text \<open>The truth value of a value, as \<open>if v\<close> and \<open>not v\<close> take it.\<close>

fun py_truthy :: "pyval \<Rightarrow> bool" where
  "py_truthy PNone = False"
| "py_truthy (PBool b) = b"
| "py_truthy (PInt n) = (n \<noteq> 0)"
| "py_truthy (PFloat f) = float_ne_zero f"
| "py_truthy (PStr s) = (s \<noteq> [])"
| "py_truthy (PList xs) = (xs \<noteq> [])"
| "py_truthy (PDict kvs) = (kvs \<noteq> [])"

text \<open>Whether \<open>format(v, spec)\<close> with a non-empty specification is defined for the value.\<close>

fun formattable :: "pyval \<Rightarrow> bool" where
  "formattable PNone = False"
| "formattable (PList xs) = False"
| "formattable (PDict kvs) = False"
| "formattable _ = True"

text \<open>A list comprehension \<open>[x for x in xs if p(x)]\<close> whose condition may raise.\<close>

fun filter_raising :: "('a \<Rightarrow> py_error + bool) \<Rightarrow> 'a list \<Rightarrow> py_error + 'a list" where
  "filter_raising p [] = Inr []"
| "filter_raising p (x # xs) =
     (case p x of
        Inl e \<Rightarrow> Inl e
      | Inr b \<Rightarrow> (case filter_raising p xs of
                   Inl e \<Rightarrow> Inl e
                 | Inr ys \<Rightarrow> Inr (if b then x # ys else ys)))"

section \<open>config.py\<close>

text \<open>The settings read from the environment that the modelled code uses.\<close>

record config =
  BINANCE_API_KEY :: string
  BINANCE_SECRET_KEY :: string

section \<open>binance\_client.py\<close>

text \<open>\<open>logging.getLogger(__name__)\<close> in binance\_client.py.\<close>

definition client_logger :: string where
  "client_logger = ''binance_client''"

text \<open>
  The constructor builds the SDK's client and tests the connection; it returns nothing
  and raises what the SDK raised.
\<close>

definition initialize_client :: "remote \<Rightarrow> config \<Rightarrow> world \<Rightarrow> (py_error + unit) \<times> world" where
  "initialize_client rem cfg w =
     (let (c, w1) = sdk_call rem
                 (Request ''Client''
                    [(''api_key'', PStr (BINANCE_API_KEY cfg)),
                     (''api_secret'', PStr (BINANCE_SECRET_KEY cfg)),
                     (''testnet'', PBool True)]) w
      in case c of
           Inl e \<Rightarrow> (Inl e, log_msg client_logger ERROR
                              [Lit ''Failed to initialize Binance client: '', ErrStr e] w1)
         | Inr client \<Rightarrow>
             (let (r, w2) = sdk_call rem (Request ''futures_account'' []) w1
              in case r of
                   Inl e \<Rightarrow> (Inl e, log_msg client_logger ERROR
                                      [Lit ''Failed to initialize Binance client: '', ErrStr e] w2)
                 | Inr account_info \<Rightarrow>
                     (let w3 = log_msg client_logger INFO
                                 [Lit ''Successfully connected to Binance Futures Testnet''] w2
                      in case py_get account_info ''totalWalletBalance'' (PStr ''N/A'') of
                           Inl e \<Rightarrow> (Inl e, log_msg client_logger ERROR
                                              [Lit ''Failed to initialize Binance client: '', ErrStr e] w3)
                         | Inr bal \<Rightarrow> (Inr (), log_msg client_logger INFO
                                              [Lit ''Account balance: '', Str bal, Lit '' USDT''] w3))))"

text \<open>The dictionary \<open>get_account_info\<close> builds; a missing field reads as \<open>None\<close>.\<close>

definition account_snapshot :: "pyval \<Rightarrow> py_error + pyval" where
  "account_snapshot account_info =
     (case account_info of
        PDict kvs \<Rightarrow>
          Inr (PDict
            [(''total_wallet_balance'', case map_of kvs ''totalWalletBalance'' of Some x \<Rightarrow> x | None \<Rightarrow> PNone),
             (''total_unrealized_pnl'', case map_of kvs ''totalUnrealizedProfit'' of Some x \<Rightarrow> x | None \<Rightarrow> PNone),
             (''total_margin_balance'', case map_of kvs ''totalMarginBalance'' of Some x \<Rightarrow> x | None \<Rightarrow> PNone),
             (''available_balance'', case map_of kvs ''availableBalance'' of Some x \<Rightarrow> x | None \<Rightarrow> PNone),
             (''max_withdraw_amount'', case map_of kvs ''maxWithdrawAmount'' of Some x \<Rightarrow> x | None \<Rightarrow> PNone)])
      | _ \<Rightarrow> Inl AttributeError)"

definition get_account_info :: "remote \<Rightarrow> world \<Rightarrow> (py_error + pyval) \<times> world" where
  "get_account_info rem w =
     (let (r, w1) = sdk_call rem (Request ''futures_account'' []) w
      in case (case r of Inl e \<Rightarrow> Inl e | Inr account_info \<Rightarrow> account_snapshot account_info) of
           Inr v \<Rightarrow> (Inr v, w1)
         | Inl e \<Rightarrow> (Inl e, log_msg client_logger ERROR [Lit ''Failed to get account info: '', ErrStr e] w1))"

text \<open>
  The loop of \<open>get_symbol_info\<close>: the first entry whose \<open>symbol\<close> field equals the
  symbol; an entry read on the way that has no such field raises.
\<close>

fun find_symbol :: "string \<Rightarrow> pyval list \<Rightarrow> py_error + pyval" where
  "find_symbol symbol [] = Inl (ValueError (''Symbol '' @ symbol @ '' not found''))"
| "find_symbol symbol (symbol_info # rest) =
     (case py_getitem symbol_info ''symbol'' of
        Inl e \<Rightarrow> Inl e
      | Inr s \<Rightarrow> if s = PStr symbol then Inr symbol_info else find_symbol symbol rest)"

definition get_symbol_info :: "remote \<Rightarrow> string \<Rightarrow> world \<Rightarrow> (py_error + pyval) \<times> world" where
  "get_symbol_info rem symbol w =
     (let (r, w1) = sdk_call rem (Request ''futures_exchange_info'' []) w
      in case (case r of
                 Inl e \<Rightarrow> Inl e
               | Inr exchange_info \<Rightarrow>
                   (case py_getitem exchange_info ''symbols'' of
                      Inl e \<Rightarrow> Inl e
                    | Inr symbols \<Rightarrow>
                        (case py_iter symbols of
                           Inl e \<Rightarrow> Inl e
                         | Inr entries \<Rightarrow> find_symbol symbol entries))) of
           Inr symbol_info \<Rightarrow> (Inr symbol_info, w1)
         | Inl e \<Rightarrow> (Inl e, log_msg client_logger ERROR
                            [Lit ''Failed to get symbol info for '', Lit symbol, Lit '': '', ErrStr e] w1))"

definition get_current_price :: "remote \<Rightarrow> string \<Rightarrow> world \<Rightarrow> (py_error + py_float) \<times> world" where
  "get_current_price rem symbol w =
     (let (r, w1) = sdk_call rem (Request ''futures_symbol_ticker'' [(''symbol'', PStr symbol)]) w
      in case (case r of
                 Inl e \<Rightarrow> Inl e
               | Inr ticker \<Rightarrow>
                   (case py_getitem ticker ''price'' of
                      Inl e \<Rightarrow> Inl e
                    | Inr p \<Rightarrow> py_float_of p)) of
           Inr price \<Rightarrow> (Inr price, w1)
         | Inl e \<Rightarrow> (Inl e, log_msg client_logger ERROR
                            [Lit ''Failed to get current price for '', Lit symbol, Lit '': '', ErrStr e] w1))"

definition get_order_book :: "remote \<Rightarrow> string \<Rightarrow> int \<Rightarrow> world \<Rightarrow> (py_error + pyval) \<times> world" where
  "get_order_book rem symbol limit w =
     (let (r, w1) = sdk_call rem
                 (Request ''futures_order_book'' [(''symbol'', PStr symbol), (''limit'', PInt limit)]) w
      in case r of
           Inr order_book \<Rightarrow> (Inr order_book, w1)
         | Inl e \<Rightarrow> (Inl e, log_msg client_logger ERROR
                            [Lit ''Failed to get order book for '', Lit symbol, Lit '': '', ErrStr e] w1))"

text \<open>The two \<open>except\<close> clauses of the order methods differ in the message they log.\<close>

definition is_BinanceAPIException :: "py_error \<Rightarrow> bool" where
  "is_BinanceAPIException e = (case e of BinanceAPIException m \<Rightarrow> True | _ \<Rightarrow> False)"

definition place_market_order ::
  "remote \<Rightarrow> string \<Rightarrow> string \<Rightarrow> py_float \<Rightarrow> bool \<Rightarrow> world \<Rightarrow> (py_error + pyval) \<times> world" where
  "place_market_order rem symbol side quantity reduce_only w =
     (let w1 = log_msg client_logger INFO
                 [Lit ''Placing market '', Lit side, Lit '' order for '',
                  Str (PFloat quantity), Lit '' '', Lit symbol] w;
          (r, w2) = sdk_call rem
                 (Request ''futures_create_order''
                    [(''symbol'', PStr symbol),
                     (''side'', PStr side),
                     (''type'', PStr ''MARKET''),
                     (''quantity'', PFloat quantity),
                     (''reduceOnly'', PBool reduce_only)]) w1
      in case r of
           Inr order \<Rightarrow>
             (Inr order,
              log_msg client_logger INFO [Lit ''Market order placed successfully: '', Str order] w2)
         | Inl e \<Rightarrow>
             (Inl e,
              if is_BinanceAPIException e
              then log_msg client_logger ERROR
                     [Lit ''Binance API error placing market order: '', ErrStr e] w2
              else log_msg client_logger ERROR
                     [Lit ''Unexpected error placing market order: '', ErrStr e] w2))"

definition place_limit_order ::
  "remote \<Rightarrow> string \<Rightarrow> string \<Rightarrow> py_float \<Rightarrow> py_float \<Rightarrow> string \<Rightarrow> bool \<Rightarrow> world
    \<Rightarrow> (py_error + pyval) \<times> world" where
  "place_limit_order rem symbol side quantity price time_in_force reduce_only w =
     (let w1 = log_msg client_logger INFO
                 [Lit ''Placing limit '', Lit side, Lit '' order for '',
                  Str (PFloat quantity), Lit '' '', Lit symbol, Lit '' at '', Str (PFloat price)] w;
          (r, w2) = sdk_call rem
                 (Request ''futures_create_order''
                    [(''symbol'', PStr symbol),
                     (''side'', PStr side),
                     (''type'', PStr ''LIMIT''),
                     (''quantity'', PFloat quantity),
                     (''price'', PFloat price),
                     (''timeInForce'', PStr time_in_force),
                     (''reduceOnly'', PBool reduce_only)]) w1
      in case r of
           Inr order \<Rightarrow>
             (Inr order,
              log_msg client_logger INFO [Lit ''Limit order placed successfully: '', Str order] w2)
         | Inl e \<Rightarrow>
             (Inl e,
              if is_BinanceAPIException e
              then log_msg client_logger ERROR
                     [Lit ''Binance API error placing limit order: '', ErrStr e] w2
              else log_msg client_logger ERROR
                     [Lit ''Unexpected error placing limit order: '', ErrStr e] w2))"

definition place_stop_limit_order ::
  "remote \<Rightarrow> string \<Rightarrow> string \<Rightarrow> py_float \<Rightarrow> py_float \<Rightarrow> py_float \<Rightarrow> string \<Rightarrow> world
    \<Rightarrow> (py_error + pyval) \<times> world" where
  "place_stop_limit_order rem symbol side quantity price stop_price time_in_force w =
     (let w1 = log_msg client_logger INFO
                 [Lit ''Placing stop-limit '', Lit side, Lit '' order for '',
                  Str (PFloat quantity), Lit '' '', Lit symbol] w;
          (r, w2) = sdk_call rem
                 (Request ''futures_create_order''
                    [(''symbol'', PStr symbol),
                     (''side'', PStr side),
                     (''type'', PStr ''STOP_MARKET''),
                     (''quantity'', PFloat quantity),
                     (''stopPrice'', PFloat stop_price),
                     (''timeInForce'', PStr time_in_force)]) w1
      in case r of
           Inr order \<Rightarrow>
             (Inr order,
              log_msg client_logger INFO [Lit ''Stop-limit order placed successfully: '', Str order] w2)
         | Inl e \<Rightarrow>
             (Inl e,
              log_msg client_logger ERROR [Lit ''Error placing stop-limit order: '', ErrStr e] w2))"

definition cancel_order :: "remote \<Rightarrow> string \<Rightarrow> int \<Rightarrow> world \<Rightarrow> (py_error + pyval) \<times> world" where
  "cancel_order rem symbol order_id w =
     (let w1 = log_msg client_logger INFO
                 [Lit ''Cancelling order '', Str (PInt order_id), Lit '' for '', Lit symbol] w;
          (r, w2) = sdk_call rem
                 (Request ''futures_cancel_order''
                    [(''symbol'', PStr symbol), (''orderId'', PInt order_id)]) w1
      in case r of
           Inr result \<Rightarrow>
             (Inr result,
              log_msg client_logger INFO [Lit ''Order cancelled successfully: '', Str result] w2)
         | Inl e \<Rightarrow>
             (Inl e, log_msg client_logger ERROR [Lit ''Error cancelling order: '', ErrStr e] w2))"

text \<open>\<open>if symbol\<close>: an optional symbol counts as given when it is a non-empty string.\<close>

definition given_symbol :: "string option \<Rightarrow> string option" where
  "given_symbol symbol = (case symbol of None \<Rightarrow> None | Some s \<Rightarrow> if s = [] then None else Some s)"

definition get_open_orders :: "remote \<Rightarrow> string option \<Rightarrow> world \<Rightarrow> (py_error + pyval) \<times> world" where
  "get_open_orders rem symbol w =
     (let (r, w1) = sdk_call rem
                 (Request ''futures_get_open_orders''
                    (case given_symbol symbol of Some s \<Rightarrow> [(''symbol'', PStr s)] | None \<Rightarrow> [])) w
      in case r of
           Inr orders \<Rightarrow> (Inr orders, w1)
         | Inl e \<Rightarrow> (Inl e, log_msg client_logger ERROR [Lit ''Error getting open orders: '', ErrStr e] w1))"

definition get_order_history :: "remote \<Rightarrow> string \<Rightarrow> int \<Rightarrow> world \<Rightarrow> (py_error + pyval) \<times> world" where
  "get_order_history rem symbol limit w =
     (let (r, w1) = sdk_call rem
                 (Request ''futures_get_all_orders'' [(''symbol'', PStr symbol), (''limit'', PInt limit)]) w
      in case r of
           Inr orders \<Rightarrow> (Inr orders, w1)
         | Inl e \<Rightarrow> (Inl e, log_msg client_logger ERROR [Lit ''Error getting order history: '', ErrStr e] w1))"

text \<open>The two conditions of the comprehensions in \<open>get_positions\<close>.\<close>

definition has_symbol :: "string \<Rightarrow> pyval \<Rightarrow> py_error + bool" where
  "has_symbol symbol pos =
     (case py_getitem pos ''symbol'' of Inl e \<Rightarrow> Inl e | Inr s \<Rightarrow> Inr (s = PStr symbol))"

definition nonzero_size :: "pyval \<Rightarrow> py_error + bool" where
  "nonzero_size pos =
     (case py_getitem pos ''positionAmt'' of
        Inl e \<Rightarrow> Inl e
      | Inr a \<Rightarrow> (case py_float_of a of Inl e \<Rightarrow> Inl e | Inr f \<Rightarrow> Inr (float_ne_zero f)))"

definition active_positions :: "string option \<Rightarrow> pyval \<Rightarrow> py_error + pyval list" where
  "active_positions symbol positions =
     (case py_iter positions of
        Inl e \<Rightarrow> Inl e
      | Inr ps \<Rightarrow>
          (case given_symbol symbol of
             Some s \<Rightarrow>
               (case filter_raising (has_symbol s) ps of
                  Inl e \<Rightarrow> Inl e
                | Inr ps' \<Rightarrow> filter_raising nonzero_size ps')
           | None \<Rightarrow> filter_raising nonzero_size ps))"

definition get_positions :: "remote \<Rightarrow> string option \<Rightarrow> world \<Rightarrow> (py_error + pyval list) \<times> world" where
  "get_positions rem symbol w =
     (let (r, w1) = sdk_call rem (Request ''futures_position_information'' []) w
      in case (case r of Inl e \<Rightarrow> Inl e | Inr positions \<Rightarrow> active_positions symbol positions) of
           Inr active \<Rightarrow> (Inr active, w1)
         | Inl e \<Rightarrow> (Inl e, log_msg client_logger ERROR [Lit ''Error getting positions: '', ErrStr e] w1))"

section \<open>logger.py\<close>

text \<open>
  Whether a string built from pieces is the empty string; every format specification in
  the program pads to a positive width.
\<close>

fun frag_empty :: "frag \<Rightarrow> bool" where
  "frag_empty (Lit s) = (s = [])"
| "frag_empty (Str v) = (v = PStr [])"
| "frag_empty (Fmt v spec) = False"
| "frag_empty (StrFmt v spec) = False"
| "frag_empty (ErrStr e) = (case e of ValueError m \<Rightarrow> m = [] | OtherException c m \<Rightarrow> m = [] | _ \<Rightarrow> False)"

definition log_trade_action ::
  "string \<Rightarrow> string \<Rightarrow> string \<Rightarrow> py_float \<Rightarrow> py_float option \<Rightarrow> frag list option \<Rightarrow> world \<Rightarrow> world" where
  "log_trade_action action symbol side quantity price order_id w =
     log_msg ''trading_bot.trades'' INFO
       ([Lit ''TRADE: '', Lit action, Lit '' '', Lit side, Lit '' '', Str (PFloat quantity),
         Lit '' '', Lit symbol]
        @ (case price of
             None \<Rightarrow> []
           | Some p \<Rightarrow> if float_ne_zero p then [Lit '' @ '', Str (PFloat p)] else [])
        @ (case order_id of
             None \<Rightarrow> []
           | Some t \<Rightarrow> if list_all frag_empty t then [] else [Lit '' (Order ID: ''] @ t @ [Lit '')''])) w"

text \<open>The traceback that \<open>exc_info=True\<close> adds to the record is not kept.\<close>

definition log_error :: "py_error \<Rightarrow> frag list \<Rightarrow> world \<Rightarrow> world" where
  "log_error error context w =
     log_msg ''trading_bot.errors'' ERROR ([Lit ''ERROR in ''] @ context @ [Lit '': '', ErrStr error]) w"

definition log_performance_metrics :: "(string \<times> frag list) list \<Rightarrow> world \<Rightarrow> world" where
  "log_performance_metrics metrics w =
     foldl (\<lambda>w' kv. log_msg ''trading_bot.performance'' INFO
                       ([Lit ''  '', Lit (fst kv), Lit '': ''] @ snd kv) w')
       (log_msg ''trading_bot.performance'' INFO [Lit ''PERFORMANCE METRICS:''] w) metrics"

section \<open>trading\_bot.py\<close>

record bot =
  running :: bool
  trade_count :: int
  successful_trades :: int
  failed_trades :: int

text \<open>\<open>logging.getLogger(__name__)\<close> in trading\_bot.py.\<close>

definition bot_logger :: string where
  "bot_logger = ''trading_bot''"

text \<open>The characters outside ASCII that the program prints, in UTF-8.\<close>

definition check_mark :: string where
  "check_mark = [CHR 0xE2, CHR 0x9C, CHR 0x85]"

definition cross_mark :: string where
  "cross_mark = [CHR 0xE2, CHR 0x9D, CHR 0x8C]"

definition ljust :: "nat \<Rightarrow> string \<Rightarrow> string" where
  "ljust n s = s @ replicate (n - length s) (CHR '' '')"

text \<open>Running one step after another; the second does not run when the first raises.\<close>

definition and_then ::
  "(world \<Rightarrow> (py_error + 'a) \<times> world) \<Rightarrow> ('a \<Rightarrow> world \<Rightarrow> (py_error + 'b) \<times> world)
    \<Rightarrow> world \<Rightarrow> (py_error + 'b) \<times> world" where
  "and_then m f w = (case m w of (Inl e, w') \<Rightarrow> (Inl e, w') | (Inr a, w') \<Rightarrow> f a w')"

definition printing :: "frag list list \<Rightarrow> world \<Rightarrow> (py_error + unit) \<times> world" where
  "printing ls w = (Inr (), foldl (\<lambda>w' l. py_print l w') w ls)"

definition evaluating :: "py_error + 'a \<Rightarrow> world \<Rightarrow> (py_error + 'a) \<times> world" where
  "evaluating r w = (r, w)"

definition TradingBot_init :: "remote \<Rightarrow> config \<Rightarrow> world \<Rightarrow> (py_error + bot) \<times> world" where
  "TradingBot_init rem cfg w =
     (case initialize_client rem cfg w of
        (Inl e, w1) \<Rightarrow> (Inl e, w1)
      | (Inr u, w1) \<Rightarrow>
          (Inr \<lparr>running = False, trade_count = 0, successful_trades = 0, failed_trades = 0\<rparr>,
           log_msg bot_logger INFO [Lit ''Trading Bot initialized successfully''] w1))"

definition display_account_info :: "remote \<Rightarrow> world \<Rightarrow> world" where
  "display_account_info rem w =
     (case and_then (get_account_info rem) (\<lambda>account_info.
           and_then (printing
                       [[Lit (CHR 0x0A # replicate 50 (CHR ''=''))],
                        [Lit ''ACCOUNT INFORMATION''],
                        [Lit (replicate 50 (CHR ''=''))]]) (\<lambda>_.
           and_then (evaluating (py_getitem account_info ''total_wallet_balance'')) (\<lambda>v1.
           and_then (printing [[Lit ''Total Wallet Balance: '', Str v1, Lit '' USDT'']]) (\<lambda>_.
           and_then (evaluating (py_getitem account_info ''available_balance'')) (\<lambda>v2.
           and_then (printing [[Lit ''Available Balance: '', Str v2, Lit '' USDT'']]) (\<lambda>_.
           and_then (evaluating (py_getitem account_info ''total_unrealized_pnl'')) (\<lambda>v3.
           and_then (printing [[Lit ''Total Unrealized PnL: '', Str v3, Lit '' USDT'']]) (\<lambda>_.
           and_then (evaluating (py_getitem account_info ''total_margin_balance'')) (\<lambda>v4.
           and_then (printing [[Lit ''Total Margin Balance: '', Str v4, Lit '' USDT'']]) (\<lambda>_.
           and_then (evaluating (py_getitem account_info ''max_withdraw_amount'')) (\<lambda>v5.
           printing [[Lit ''Max Withdraw Amount: '', Str v5, Lit '' USDT''],
                     [Lit (replicate 50 (CHR ''='') @ [CHR 0x0A])]]))))))))))) w of
        (Inr u, w') \<Rightarrow> w'
      | (Inl e, w') \<Rightarrow>
          py_print [Lit ''Error getting account info: '', ErrStr e]
            (log_error e [Lit ''display_account_info''] w'))"

definition start :: "remote \<Rightarrow> bot \<Rightarrow> world \<Rightarrow> bot \<times> world" where
  "start rem b w =
     (let b1 = b\<lparr>running := True\<rparr>;
          w1 = log_msg bot_logger INFO [Lit ''Trading Bot started''] w
      in (b1, display_account_info rem w1))"

text \<open>One row of the positions table.\<close>

definition position_line :: "pyval \<Rightarrow> py_error + frag list" where
  "position_line pos =
     (case py_getitem pos ''symbol'' of Inl e \<Rightarrow> Inl e | Inr symbol \<Rightarrow>
      case py_getitem pos ''positionAmt'' of Inl e \<Rightarrow> Inl e | Inr a \<Rightarrow>
      case py_float_of a of Inl e \<Rightarrow> Inl e | Inr amt \<Rightarrow>
      case py_getitem pos ''entryPrice'' of Inl e \<Rightarrow> Inl e | Inr entry_price \<Rightarrow>
      case py_getitem pos ''markPrice'' of Inl e \<Rightarrow> Inl e | Inr mark_price \<Rightarrow>
      case py_getitem pos ''unRealizedProfit'' of Inl e \<Rightarrow> Inl e | Inr pnl \<Rightarrow>
      if formattable symbol \<and> formattable entry_price \<and> formattable mark_price \<and> formattable pnl
      then Inr [Fmt symbol ''<12'', Lit '' '',
                Lit (ljust 6 (if float_gt_zero amt then ''LONG'' else ''SHORT'')), Lit '' '',
                Fmt (PFloat (float_abs amt)) ''<15.6f'', Lit '' '',
                Fmt entry_price ''<12'', Lit '' '', Fmt mark_price ''<12'', Lit '' '', Fmt pnl ''<12'']
      else Inl TypeError)"

fun print_position_rows :: "pyval list \<Rightarrow> world \<Rightarrow> (py_error + unit) \<times> world" where
  "print_position_rows [] w = (Inr (), w)"
| "print_position_rows (pos # rest) w =
     (case position_line pos of
        Inl e \<Rightarrow> (Inl e, w)
      | Inr line \<Rightarrow> print_position_rows rest (py_print line w))"

definition display_positions :: "remote \<Rightarrow> world \<Rightarrow> world" where
  "display_positions rem w =
     (case and_then (get_positions rem None) (\<lambda>positions.
           if positions = [] then printing [[Lit ''No open positions'']]
           else and_then (printing
                       [[Lit (CHR 0x0A # replicate 80 (CHR ''=''))],
                        [Lit ''CURRENT POSITIONS''],
                        [Lit (replicate 80 (CHR ''=''))],
                        [Lit (ljust 12 ''Symbol''), Lit '' '', Lit (ljust 6 ''Side''), Lit '' '',
                         Lit (ljust 15 ''Size''), Lit '' '', Lit (ljust 12 ''Entry Price''), Lit '' '',
                         Lit (ljust 12 ''Mark Price''), Lit '' '', Lit (ljust 12 ''PnL'')],
                        [Lit (replicate 80 (CHR ''-''))]]) (\<lambda>_.
                and_then (print_position_rows positions) (\<lambda>_.
                printing [[Lit (replicate 80 (CHR ''='') @ [CHR 0x0A])]]))) w of
        (Inr u, w') \<Rightarrow> w'
      | (Inl e, w') \<Rightarrow>
          py_print [Lit ''Error getting positions: '', ErrStr e]
            (log_error e [Lit ''display_positions''] w'))"

text \<open>One row of the open-orders table.\<close>

definition order_line :: "pyval \<Rightarrow> py_error + frag list" where
  "order_line order =
     (case py_getitem order ''orderId'' of Inl e \<Rightarrow> Inl e | Inr order_id \<Rightarrow>
      case py_getitem order ''symbol'' of Inl e \<Rightarrow> Inl e | Inr symbol \<Rightarrow>
      case py_getitem order ''side'' of Inl e \<Rightarrow> Inl e | Inr side \<Rightarrow>
      case py_getitem order ''type'' of Inl e \<Rightarrow> Inl e | Inr order_type \<Rightarrow>
      case py_getitem order ''origQty'' of Inl e \<Rightarrow> Inl e | Inr quantity \<Rightarrow>
      case py_get order ''price'' (PStr ''Market'') of Inl e \<Rightarrow> Inl e | Inr price \<Rightarrow>
      case py_getitem order ''status'' of Inl e \<Rightarrow> Inl e | Inr status \<Rightarrow>
      if formattable symbol \<and> formattable side \<and> formattable order_type \<and> formattable quantity
         \<and> formattable price \<and> formattable status
      then Inr [StrFmt order_id ''<12'', Lit '' '', Fmt symbol ''<12'', Lit '' '', Fmt side ''<6'', Lit '' '',
                Fmt order_type ''<12'', Lit '' '', Fmt quantity ''<15'', Lit '' '', Fmt price ''<12'', Lit '' '',
                Fmt status ''<12'']
      else Inl TypeError)"

fun print_order_rows :: "pyval list \<Rightarrow> world \<Rightarrow> (py_error + unit) \<times> world" where
  "print_order_rows [] w = (Inr (), w)"
| "print_order_rows (order # rest) w =
     (case order_line order of
        Inl e \<Rightarrow> (Inl e, w)
      | Inr line \<Rightarrow> print_order_rows rest (py_print line w))"

text \<open>\<open>' for ' + symbol if symbol else ''\<close>.\<close>

definition for_symbol :: "string option \<Rightarrow> string" where
  "for_symbol symbol = (case given_symbol symbol of Some s \<Rightarrow> '' for '' @ s | None \<Rightarrow> [])"

definition display_open_orders :: "remote \<Rightarrow> string option \<Rightarrow> world \<Rightarrow> world" where
  "display_open_orders rem symbol w =
     (case and_then (get_open_orders rem symbol) (\<lambda>orders.
           if \<not> py_truthy orders then printing [[Lit ''No open orders'', Lit (for_symbol symbol)]]
           else and_then (printing
                       [[Lit (CHR 0x0A # replicate 100 (CHR ''=''))],
                        [Lit ''OPEN ORDERS'', Lit (for_symbol symbol)],
                        [Lit (replicate 100 (CHR ''=''))],
                        [Lit (ljust 12 ''Order ID''), Lit '' '', Lit (ljust 12 ''Symbol''), Lit '' '',
                         Lit (ljust 6 ''Side''), Lit '' '', Lit (ljust 12 ''Type''), Lit '' '',
                         Lit (ljust 15 ''Quantity''), Lit '' '', Lit (ljust 12 ''Price''), Lit '' '',
                         Lit (ljust 12 ''Status'')],
                        [Lit (replicate 100 (CHR ''-''))]]) (\<lambda>_.
                and_then (evaluating (py_iter orders)) (\<lambda>os.
                and_then (print_order_rows os) (\<lambda>_.
                printing [[Lit (replicate 100 (CHR ''='') @ [CHR 0x0A])]])))) w of
        (Inr u, w') \<Rightarrow> w'
      | (Inl e, w') \<Rightarrow>
          py_print [Lit ''Error getting open orders: '', ErrStr e]
            (log_error e [Lit ''display_open_orders''] w'))"

text \<open>The \<open>except\<close> clause of the orchestrator's \<open>place_market_order\<close>.\<close>

definition market_order_failed ::
  "string \<Rightarrow> string \<Rightarrow> py_float \<Rightarrow> py_error \<Rightarrow> bot \<Rightarrow> world \<Rightarrow> bool \<times> bot \<times> world" where
  "market_order_failed symbol side quantity e b w =
     (let w1 = log_error e [Lit ''place_market_order('', Lit symbol, Lit '', '', Lit side, Lit '', '',
                            Str (PFloat quantity), Lit '')''] w;
          b1 = b\<lparr>trade_count := trade_count b + 1\<rparr>;
          b2 = b1\<lparr>failed_trades := failed_trades b1 + 1\<rparr>
      in (False, b2,
          py_print [Lit (cross_mark @ '' Failed to place market ''), Lit side, Lit '' order: '', ErrStr e] w1))"

definition bot_place_market_order ::
  "remote \<Rightarrow> string \<Rightarrow> string \<Rightarrow> py_float \<Rightarrow> bot \<Rightarrow> world \<Rightarrow> bool \<times> bot \<times> world" where
  "bot_place_market_order rem symbol side quantity b w =
     (let w1 = log_msg bot_logger INFO
                 [Lit ''Placing market '', Lit side, Lit '' order for '',
                  Str (PFloat quantity), Lit '' '', Lit symbol] w
      in case place_market_order rem symbol side quantity False w1 of
           (Inl e, w2) \<Rightarrow> market_order_failed symbol side quantity e b w2
         | (Inr order, w2) \<Rightarrow>
             (case py_getitem order ''orderId'' of
                Inl e \<Rightarrow> market_order_failed symbol side quantity e b w2
              | Inr order_id \<Rightarrow>
                  (let w3 = log_trade_action ''MARKET_ORDER'' symbol side quantity None
                              (Some [Str order_id]) w2;
                       b1 = b\<lparr>trade_count := trade_count b + 1\<rparr>;
                       b2 = b1\<lparr>successful_trades := successful_trades b1 + 1\<rparr>;
                       w4 = py_print [Lit (check_mark @ '' Market ''), Lit side,
                                      Lit '' order placed successfully!''] w3;
                       w5 = py_print [Lit ''   Order ID: '', Str order_id] w4;
                       w6 = py_print [Lit ''   Symbol: '', Lit symbol] w5;
                       w7 = py_print [Lit ''   Quantity: '', Str (PFloat quantity)] w6
                   in case py_getitem order ''status'' of
                        Inl e \<Rightarrow> market_order_failed symbol side quantity e b2 w7
                      | Inr status \<Rightarrow> (True, b2, py_print [Lit ''   Status: '', Str status] w7))))"

text \<open>The \<open>except\<close> clause of the orchestrator's \<open>place_limit_order\<close>.\<close>

definition limit_order_failed ::
  "string \<Rightarrow> string \<Rightarrow> py_float \<Rightarrow> py_float \<Rightarrow> py_error \<Rightarrow> bot \<Rightarrow> world \<Rightarrow> bool \<times> bot \<times> world" where
  "limit_order_failed symbol side quantity price e b w =
     (let w1 = log_error e [Lit ''place_limit_order('', Lit symbol, Lit '', '', Lit side, Lit '', '',
                            Str (PFloat quantity), Lit '', '', Str (PFloat price), Lit '')''] w;
          b1 = b\<lparr>trade_count := trade_count b + 1\<rparr>;
          b2 = b1\<lparr>failed_trades := failed_trades b1 + 1\<rparr>
      in (False, b2,
          py_print [Lit (cross_mark @ '' Failed to place limit ''), Lit side, Lit '' order: '', ErrStr e] w1))"

definition bot_place_limit_order ::
  "remote \<Rightarrow> string \<Rightarrow> string \<Rightarrow> py_float \<Rightarrow> py_float \<Rightarrow> bot \<Rightarrow> world \<Rightarrow> bool \<times> bot \<times> world" where
  "bot_place_limit_order rem symbol side quantity price b w =
     (let w1 = log_msg bot_logger INFO
                 [Lit ''Placing limit '', Lit side, Lit '' order for '',
                  Str (PFloat quantity), Lit '' '', Lit symbol, Lit '' at '', Str (PFloat price)] w
      in case place_limit_order rem symbol side quantity price ''GTC'' False w1 of
           (Inl e, w2) \<Rightarrow> limit_order_failed symbol side quantity price e b w2
         | (Inr order, w2) \<Rightarrow>
             (case py_getitem order ''orderId'' of
                Inl e \<Rightarrow> limit_order_failed symbol side quantity price e b w2
              | Inr order_id \<Rightarrow>
                  (let w3 = log_trade_action ''LIMIT_ORDER'' symbol side quantity (Some price)
                              (Some [Str order_id]) w2;
                       b1 = b\<lparr>trade_count := trade_count b + 1\<rparr>;
                       b2 = b1\<lparr>successful_trades := successful_trades b1 + 1\<rparr>;
                       w4 = py_print [Lit (check_mark @ '' Limit ''), Lit side,
                                      Lit '' order placed successfully!''] w3;
                       w5 = py_print [Lit ''   Order ID: '', Str order_id] w4;
                       w6 = py_print [Lit ''   Symbol: '', Lit symbol] w5;
                       w7 = py_print [Lit ''   Quantity: '', Str (PFloat quantity)] w6;
                       w8 = py_print [Lit ''   Price: '', Str (PFloat price)] w7
                   in case py_getitem order ''status'' of
                        Inl e \<Rightarrow> limit_order_failed symbol side quantity price e b2 w8
                      | Inr status \<Rightarrow> (True, b2, py_print [Lit ''   Status: '', Str status] w8))))"

definition bot_cancel_order :: "remote \<Rightarrow> string \<Rightarrow> int \<Rightarrow> world \<Rightarrow> bool \<times> world" where
  "bot_cancel_order rem symbol order_id w =
     (let w1 = log_msg bot_logger INFO
                 [Lit ''Cancelling order '', Str (PInt order_id), Lit '' for '', Lit symbol] w
      in case and_then (cancel_order rem symbol order_id) (\<lambda>result.
              and_then (printing
                          [[Lit (check_mark @ '' Order ''), Str (PInt order_id), Lit '' cancelled successfully!''],
                           [Lit ''   Symbol: '', Lit symbol]]) (\<lambda>_.
              and_then (evaluating (py_getitem result ''status'')) (\<lambda>status.
              printing [[Lit ''   Status: '', Str status]]))) w1 of
           (Inr u, w') \<Rightarrow> (True, w')
         | (Inl e, w') \<Rightarrow>
             (False,
              py_print [Lit (cross_mark @ '' Failed to cancel order ''), Str (PInt order_id), Lit '': '', ErrStr e]
                (log_error e [Lit ''cancel_order('', Lit symbol, Lit '', '', Str (PInt order_id), Lit '')''] w')))"

definition bot_get_current_price :: "remote \<Rightarrow> string \<Rightarrow> world \<Rightarrow> (py_error + py_float) \<times> world" where
  "bot_get_current_price rem symbol w =
     (case get_current_price rem symbol w of
        (Inr price, w1) \<Rightarrow> (Inr price, w1)
      | (Inl e, w1) \<Rightarrow> (Inl e, log_error e [Lit ''get_current_price('', Lit symbol, Lit '')''] w1))"

text \<open>\<open>(self.successful_trades / self.trade_count) * 100\<close>.\<close>

definition success_rate :: "bot \<Rightarrow> py_error + py_float" where
  "success_rate b =
     (case py_truediv (successful_trades b) (trade_count b) of
        Inl e \<Rightarrow> Inl e
      | Inr r \<Rightarrow> Inr (py_float_mul r (Finite 100)))"

definition display_performance_metrics :: "bot \<Rightarrow> world \<Rightarrow> (py_error + unit) \<times> world" where
  "display_performance_metrics b w =
     (if trade_count b = 0 then printing [[Lit ''No trades executed yet.'']] w
      else case success_rate b of
             Inl e \<Rightarrow> (Inl e, w)
           | Inr rate \<Rightarrow>
               (let metrics =
                      [(''Total Trades'', [Str (PInt (trade_count b))]),
                       (''Successful Trades'', [Str (PInt (successful_trades b))]),
                       (''Failed Trades'', [Str (PInt (failed_trades b))]),
                       (''Success Rate'', [Lit (format_2f rate @ ''%'')])];
                    w1 = log_performance_metrics metrics w
                in printing
                     ([[Lit (CHR 0x0A # replicate 40 (CHR ''=''))],
                       [Lit ''PERFORMANCE METRICS''],
                       [Lit (replicate 40 (CHR ''=''))]]
                      @ map (\<lambda>kv. [Lit (fst kv), Lit '': ''] @ snd kv) metrics
                      @ [[Lit (replicate 40 (CHR ''='') @ [CHR 0x0A])]]) w1))"

definition stop :: "bot \<Rightarrow> world \<Rightarrow> (py_error + unit) \<times> bot \<times> world" where
  "stop b w =
     (let b1 = b\<lparr>running := False\<rparr>;
          w1 = log_msg bot_logger INFO [Lit ''Trading Bot stopped''] w;
          (r, w2) = display_performance_metrics b1 w1
      in (r, b1, w2))"

definition validate_symbol :: "remote \<Rightarrow> string \<Rightarrow> world \<Rightarrow> bool \<times> world" where
  "validate_symbol rem symbol w =
     (case and_then (get_symbol_info rem symbol) (\<lambda>symbol_info.
             evaluating (py_getitem symbol_info ''status'')) w of
        (Inr status, w1) \<Rightarrow> (status = PStr ''TRADING'', w1)
      | (Inl e, w1) \<Rightarrow>
          (False, log_msg bot_logger WARNING
                    [Lit ''Symbol validation failed for '', Lit symbol, Lit '': '', ErrStr e] w1))"

definition bot_get_symbol_info :: "remote \<Rightarrow> string \<Rightarrow> world \<Rightarrow> (py_error + pyval) \<times> world" where
  "bot_get_symbol_info rem symbol w =
     (case get_symbol_info rem symbol w of
        (Inr info, w1) \<Rightarrow> (Inr info, w1)
      | (Inl e, w1) \<Rightarrow> (Inl e, log_error e [Lit ''get_symbol_info('', Lit symbol, Lit '')''] w1))"

section \<open>cli.py\<close>

text \<open>
  The colour codes of colorama and the characters outside ASCII, in UTF-8. The lines
  recorded are the arguments of \<open>print\<close>; the reset code that colorama's stream writes
  after each of them is not part of the record.
\<close>

definition Fore_RED :: string where
  "Fore_RED = CHR 0x1B # ''[31m''"

definition Fore_GREEN :: string where
  "Fore_GREEN = CHR 0x1B # ''[32m''"

definition Fore_YELLOW :: string where
  "Fore_YELLOW = CHR 0x1B # ''[33m''"

definition Fore_CYAN :: string where
  "Fore_CYAN = CHR 0x1B # ''[36m''"

definition rocket :: string where
  "rocket = [CHR 0xF0, CHR 0x9F, CHR 0x9A, CHR 0x80]"

definition money_bag :: string where
  "money_bag = [CHR 0xF0, CHR 0x9F, CHR 0x92, CHR 0xB0]"

definition waving_hand :: string where
  "waving_hand = [CHR 0xF0, CHR 0x9F, CHR 0x91, CHR 0x8B]"

text \<open>\<open>logging.getLogger(__name__)\<close> in cli.py, which is run as a script.\<close>

definition cli_logger :: string where
  "cli_logger = ''__main__''"

definition TradingBotCLI_init :: "remote \<Rightarrow> config \<Rightarrow> world \<Rightarrow> (py_error + bot) \<times> world" where
  "TradingBotCLI_init rem cfg w = TradingBot_init rem cfg w"

definition display_welcome :: "world \<Rightarrow> world" where
  "display_welcome w =
     snd (printing
       [[Lit Fore_CYAN, Lit (replicate 60 (CHR ''=''))],
        [Lit Fore_CYAN, Lit (rocket @ '' BINANCE FUTURES TESTNET TRADING BOT'')],
        [Lit Fore_CYAN, Lit (replicate 60 (CHR ''=''))],
        [Lit Fore_YELLOW, Lit ''Welcome to the Trading Bot CLI!''],
        [Lit Fore_YELLOW, Lit ''This bot connects to Binance Futures Testnet for safe trading practice.''],
        [Lit Fore_GREEN, Lit ''Type 'help' to see available commands or 'quit' to exit.''],
        [Lit Fore_CYAN, Lit (replicate 60 (CHR ''='') @ [CHR 0x0A])]] w)"

definition parse_command :: "string \<Rightarrow> string option \<times> string list" where
  "parse_command command =
     (case py_split (py_strip command) of
        [] \<Rightarrow> (None, [])
      | c # args \<Rightarrow> (Some (py_lower c), args))"

definition handle_info :: "remote \<Rightarrow> string list \<Rightarrow> world \<Rightarrow> world" where
  "handle_info rem args w = display_account_info rem w"

definition handle_positions :: "remote \<Rightarrow> string list \<Rightarrow> world \<Rightarrow> world" where
  "handle_positions rem args w = display_positions rem w"

definition handle_orders :: "remote \<Rightarrow> string list \<Rightarrow> world \<Rightarrow> world" where
  "handle_orders rem args w =
     display_open_orders rem (case args of [] \<Rightarrow> None | a # r \<Rightarrow> Some a) w"

definition handle_price :: "remote \<Rightarrow> string list \<Rightarrow> world \<Rightarrow> world" where
  "handle_price rem args w =
     (case args of
        [] \<Rightarrow> py_print [Lit Fore_RED, Lit (cross_mark @ '' Please provide a symbol. Usage: price <symbol>'')] w
      | a # r \<Rightarrow>
          (let symbol = py_upper a
           in case bot_get_current_price rem symbol w of
                (Inr price, w1) \<Rightarrow>
                  py_print [Lit Fore_GREEN, Lit (money_bag @ '' Current price of ''), Lit symbol, Lit '': '',
                            Str (PFloat price), Lit '' USDT''] w1
              | (Inl e, w1) \<Rightarrow>
                  py_print [Lit Fore_RED, Lit (cross_mark @ '' Error getting price for ''), Lit symbol,
                            Lit '': '', ErrStr e] w1))"

text \<open>
  The two market handlers differ in the side they pass and in their usage line. An
  exception of \<open>float\<close> other than \<open>ValueError\<close> would leave the handler.
\<close>

definition handle_buy_market ::
  "remote \<Rightarrow> string list \<Rightarrow> bot \<Rightarrow> world \<Rightarrow> (py_error + unit) \<times> bot \<times> world" where
  "handle_buy_market rem args b w =
     (if length args < 2
      then (Inr (), b, py_print [Lit Fore_RED, Lit (cross_mark @ '' Usage: buy_market <symbol> <quantity>'')] w)
      else let symbol = py_upper (args ! 0)
           in case float_of_string (args ! 1) of
                Inl (ValueError m) \<Rightarrow>
                  (Inr (), b, py_print [Lit Fore_RED, Lit (cross_mark @ '' Invalid quantity. Please enter a number.'')] w)
              | Inl e \<Rightarrow> (Inl e, b, w)
              | Inr quantity \<Rightarrow>
                  (case validate_symbol rem symbol w of
                     (False, w1) \<Rightarrow>
                       (Inr (), b, py_print [Lit Fore_RED, Lit (cross_mark @ '' Invalid or non-tradeable symbol: ''),
                                             Lit symbol] w1)
                   | (True, w1) \<Rightarrow>
                       (case bot_place_market_order rem symbol ''BUY'' quantity b w1 of
                          (ok, b1, w2) \<Rightarrow> (Inr (), b1, w2))))"

definition handle_sell_market ::
  "remote \<Rightarrow> string list \<Rightarrow> bot \<Rightarrow> world \<Rightarrow> (py_error + unit) \<times> bot \<times> world" where
  "handle_sell_market rem args b w =
     (if length args < 2
      then (Inr (), b, py_print [Lit Fore_RED, Lit (cross_mark @ '' Usage: sell_market <symbol> <quantity>'')] w)
      else let symbol = py_upper (args ! 0)
           in case float_of_string (args ! 1) of
                Inl (ValueError m) \<Rightarrow>
                  (Inr (), b, py_print [Lit Fore_RED, Lit (cross_mark @ '' Invalid quantity. Please enter a number.'')] w)
              | Inl e \<Rightarrow> (Inl e, b, w)
              | Inr quantity \<Rightarrow>
                  (case validate_symbol rem symbol w of
                     (False, w1) \<Rightarrow>
                       (Inr (), b, py_print [Lit Fore_RED, Lit (cross_mark @ '' Invalid or non-tradeable symbol: ''),
                                             Lit symbol] w1)
                   | (True, w1) \<Rightarrow>
                       (case bot_place_market_order rem symbol ''SELL'' quantity b w1 of
                          (ok, b1, w2) \<Rightarrow> (Inr (), b1, w2))))"

text \<open>The quantity and the price of a limit order are read in one \<open>try\<close> block, the quantity first.\<close>

definition quantity_and_price :: "string list \<Rightarrow> py_error + py_float \<times> py_float" where
  "quantity_and_price args =
     (case float_of_string (args ! 1) of
        Inl e \<Rightarrow> Inl e
      | Inr quantity \<Rightarrow>
          (case float_of_string (args ! 2) of
             Inl e \<Rightarrow> Inl e
           | Inr price \<Rightarrow> Inr (quantity, price)))"

definition handle_buy_limit ::
  "remote \<Rightarrow> string list \<Rightarrow> bot \<Rightarrow> world \<Rightarrow> (py_error + unit) \<times> bot \<times> world" where
  "handle_buy_limit rem args b w =
     (if length args < 3
      then (Inr (), b, py_print [Lit Fore_RED, Lit (cross_mark @ '' Usage: buy_limit <symbol> <quantity> <price>'')] w)
      else let symbol = py_upper (args ! 0)
           in case quantity_and_price args of
                Inl (ValueError m) \<Rightarrow>
                  (Inr (), b, py_print [Lit Fore_RED,
                                        Lit (cross_mark @ '' Invalid quantity or price. Please enter numbers.'')] w)
              | Inl e \<Rightarrow> (Inl e, b, w)
              | Inr (quantity, price) \<Rightarrow>
                  (case validate_symbol rem symbol w of
                     (False, w1) \<Rightarrow>
                       (Inr (), b, py_print [Lit Fore_RED, Lit (cross_mark @ '' Invalid or non-tradeable symbol: ''),
                                             Lit symbol] w1)
                   | (True, w1) \<Rightarrow>
                       (case bot_place_limit_order rem symbol ''BUY'' quantity price b w1 of
                          (ok, b1, w2) \<Rightarrow> (Inr (), b1, w2))))"

definition handle_sell_limit ::
  "remote \<Rightarrow> string list \<Rightarrow> bot \<Rightarrow> world \<Rightarrow> (py_error + unit) \<times> bot \<times> world" where
  "handle_sell_limit rem args b w =
     (if length args < 3
      then (Inr (), b, py_print [Lit Fore_RED, Lit (cross_mark @ '' Usage: sell_limit <symbol> <quantity> <price>'')] w)
      else let symbol = py_upper (args ! 0)
           in case quantity_and_price args of
                Inl (ValueError m) \<Rightarrow>
                  (Inr (), b, py_print [Lit Fore_RED,
                                        Lit (cross_mark @ '' Invalid quantity or price. Please enter numbers.'')] w)
              | Inl e \<Rightarrow> (Inl e, b, w)
              | Inr (quantity, price) \<Rightarrow>
                  (case validate_symbol rem symbol w of
                     (False, w1) \<Rightarrow>
                       (Inr (), b, py_print [Lit Fore_RED, Lit (cross_mark @ '' Invalid or non-tradeable symbol: ''),
                                             Lit symbol] w1)
                   | (True, w1) \<Rightarrow>
                       (case bot_place_limit_order rem symbol ''SELL'' quantity price b w1 of
                          (ok, b1, w2) \<Rightarrow> (Inr (), b1, w2))))"

definition handle_cancel :: "remote \<Rightarrow> string list \<Rightarrow> world \<Rightarrow> (py_error + unit) \<times> world" where
  "handle_cancel rem args w =
     (if length args < 2
      then (Inr (), py_print [Lit Fore_RED, Lit (cross_mark @ '' Usage: cancel <symbol> <order_id>'')] w)
      else let symbol = py_upper (args ! 0)
           in case int_of_string (args ! 1) of
                Inl (ValueError m) \<Rightarrow>
                  (Inr (), py_print [Lit Fore_RED, Lit (cross_mark @ '' Invalid order ID. Please enter a number.'')] w)
              | Inl e \<Rightarrow> (Inl e, w)
              | Inr order_id \<Rightarrow> (Inr (), snd (bot_cancel_order rem symbol order_id w)))"

text \<open>
  \<open>orders[-10:]\<close>, then what the loop runs through. A dictionary cannot be sliced; the
  exception is \<open>TypeError\<close> up to Python 3.11 and \<open>KeyError\<close> after, caught alike.
\<close>

fun last_ten :: "pyval \<Rightarrow> py_error + pyval list" where
  "last_ten (PList xs) = Inr (drop (length xs - 10) xs)"
| "last_ten (PStr s) = Inr (map (\<lambda>c. PStr [c]) (drop (length s - 10) s))"
| "last_ten _ = Inl TypeError"

definition history_line :: "pyval \<Rightarrow> py_error + frag list" where
  "history_line order =
     (case py_getitem order ''orderId'' of Inl e \<Rightarrow> Inl e | Inr order_id \<Rightarrow>
      case py_getitem order ''side'' of Inl e \<Rightarrow> Inl e | Inr side \<Rightarrow>
      case py_getitem order ''type'' of Inl e \<Rightarrow> Inl e | Inr order_type \<Rightarrow>
      case py_getitem order ''origQty'' of Inl e \<Rightarrow> Inl e | Inr quantity \<Rightarrow>
      case py_get order ''price'' (PStr ''Market'') of Inl e \<Rightarrow> Inl e | Inr price \<Rightarrow>
      case py_getitem order ''status'' of Inl e \<Rightarrow> Inl e | Inr status \<Rightarrow>
      case py_getitem order ''time'' of Inl e \<Rightarrow> Inl e | Inr time \<Rightarrow>
      Inr [Lit ''ID: '', Str order_id, Lit '' | '', Str side, Lit '' '', Str order_type,
           Lit '' | Qty: '', Str quantity, Lit '' | Price: '', Str price,
           Lit '' | Status: '', Str status, Lit '' | Time: '', Str time])"

fun print_history_rows :: "pyval list \<Rightarrow> world \<Rightarrow> (py_error + unit) \<times> world" where
  "print_history_rows [] w = (Inr (), w)"
| "print_history_rows (order # rest) w =
     (case history_line order of
        Inl e \<Rightarrow> (Inl e, w)
      | Inr line \<Rightarrow> print_history_rows rest (py_print line w))"

definition handle_history :: "remote \<Rightarrow> string list \<Rightarrow> world \<Rightarrow> world" where
  "handle_history rem args w =
     (case args of
        [] \<Rightarrow> py_print [Lit Fore_RED, Lit (cross_mark @ '' Please provide a symbol. Usage: history <symbol>'')] w
      | a # r \<Rightarrow>
          (let symbol = py_upper a
           in case and_then (get_order_history rem symbol 20) (\<lambda>orders.
                   if \<not> py_truthy orders then printing [[Lit ''No order history found for '', Lit symbol]]
                   else and_then (printing
                               [[Lit [CHR 0x0A], Lit Fore_GREEN, Lit ''Order History for '', Lit symbol, Lit '':''],
                                [Lit (replicate 80 (CHR ''-''))]]) (\<lambda>_.
                        and_then (evaluating (last_ten orders)) (\<lambda>os.
                        print_history_rows os))) w of
                (Inr u, w') \<Rightarrow> w'
              | (Inl e, w') \<Rightarrow>
                  py_print [Lit Fore_RED, Lit (cross_mark @ '' Error getting order history: ''), ErrStr e] w'))"

text \<open>The comprehension of \<open>handle_symbols\<close>: the \<open>symbol\<close> of every entry whose \<open>status\<close> is \<open>TRADING\<close>.\<close>

fun trading_symbols :: "pyval list \<Rightarrow> py_error + pyval list" where
  "trading_symbols [] = Inr []"
| "trading_symbols (s # rest) =
     (case py_getitem s ''status'' of
        Inl e \<Rightarrow> Inl e
      | Inr st \<Rightarrow>
          if st = PStr ''TRADING''
          then (case py_getitem s ''symbol'' of
                  Inl e \<Rightarrow> Inl e
                | Inr name \<Rightarrow> (case trading_symbols rest of Inl e \<Rightarrow> Inl e | Inr names \<Rightarrow> Inr (name # names)))
          else trading_symbols rest)"

text \<open>The rows of four symbols, each symbol padded to twelve columns, joined by two spaces.\<close>

fun join_row :: "pyval list \<Rightarrow> frag list" where
  "join_row [] = []"
| "join_row [s] = [Fmt s ''<12'']"
| "join_row (s # rest) = Fmt s ''<12'' # Lit ''  '' # join_row rest"

fun print_symbol_rows :: "nat \<Rightarrow> pyval list \<Rightarrow> world \<Rightarrow> (py_error + unit) \<times> world" where
  "print_symbol_rows 0 symbols w = (Inr (), w)"
| "print_symbol_rows (Suc n) symbols w =
     (if symbols = [] then (Inr (), w)
      else if list_all formattable (take 4 symbols)
           then print_symbol_rows n (drop 4 symbols) (py_print (join_row (take 4 symbols)) w)
           else (Inl TypeError, w))"

definition handle_symbols :: "remote \<Rightarrow> string list \<Rightarrow> world \<Rightarrow> world" where
  "handle_symbols rem args w =
     (case and_then (sdk_call rem (Request ''futures_exchange_info'' [])) (\<lambda>exchange_info.
           and_then (evaluating (py_getitem exchange_info ''symbols'')) (\<lambda>entries.
           and_then (evaluating (py_iter entries)) (\<lambda>es.
           and_then (evaluating (trading_symbols es)) (\<lambda>symbols.
           and_then (printing
                       [[Lit [CHR 0x0A], Lit Fore_GREEN, Lit ''Available Trading Symbols ('',
                         Str (PInt (int (length symbols))), Lit '' total):''],
                        [Lit (replicate 50 (CHR ''-''))]]) (\<lambda>_.
           and_then (print_symbol_rows (length symbols) symbols) (\<lambda>_.
           printing [[]])))))) w of
        (Inr u, w') \<Rightarrow> w'
      | (Inl e, w') \<Rightarrow> py_print [Lit Fore_RED, Lit (cross_mark @ '' Error getting symbols: ''), ErrStr e] w')"

definition handle_performance :: "string list \<Rightarrow> bot \<Rightarrow> world \<Rightarrow> (py_error + unit) \<times> world" where
  "handle_performance args b w = display_performance_metrics b w"

definition handle_start :: "remote \<Rightarrow> string list \<Rightarrow> bot \<Rightarrow> world \<Rightarrow> bot \<times> world" where
  "handle_start rem args b w = start rem b w"

definition handle_stop :: "string list \<Rightarrow> bot \<Rightarrow> world \<Rightarrow> (py_error + unit) \<times> bot \<times> world" where
  "handle_stop args b w = stop b w"

text \<open>
  The chain of comparisons in \<open>run\<close>, for a verb other than \<open>quit\<close> and \<open>exit\<close>. The
  class has no method \<open>handle_help\<close>, so the call for the verb \<open>help\<close> raises.
\<close>

definition dispatch ::
  "remote \<Rightarrow> string \<Rightarrow> string list \<Rightarrow> bot \<Rightarrow> world \<Rightarrow> (py_error + unit) \<times> bot \<times> world" where
  "dispatch rem cmd args b w =
     (if cmd = ''help'' then (Inl AttributeError, b, w)
      else if cmd = ''info'' then (Inr (), b, handle_info rem args w)
      else if cmd = ''positions'' then (Inr (), b, handle_positions rem args w)
      else if cmd = ''orders'' then (Inr (), b, handle_orders rem args w)
      else if cmd = ''price'' then (Inr (), b, handle_price rem args w)
      else if cmd = ''buy_market'' then handle_buy_market rem args b w
      else if cmd = ''sell_market'' then handle_sell_market rem args b w
      else if cmd = ''buy_limit'' then handle_buy_limit rem args b w
      else if cmd = ''sell_limit'' then handle_sell_limit rem args b w
      else if cmd = ''cancel'' then (case handle_cancel rem args w of (r, w1) \<Rightarrow> (r, b, w1))
      else if cmd = ''history'' then (Inr (), b, handle_history rem args w)
      else if cmd = ''symbols'' then (Inr (), b, handle_symbols rem args w)
      else if cmd = ''performance'' then (case handle_performance args b w of (r, w1) \<Rightarrow> (r, b, w1))
      else if cmd = ''start'' then (case handle_start rem args b w of (b1, w1) \<Rightarrow> (Inr (), b1, w1))
      else if cmd = ''stop'' then handle_stop args b w
      else (Inr (), b,
            snd (printing [[Lit Fore_RED, Lit (cross_mark @ '' Unknown command: ''), Lit cmd],
                           [Lit Fore_YELLOW, Lit ''Type 'help' to see available commands.'']] w)))"

text \<open>
  One turn of the loop of \<open>run\<close> on a line that \<open>input\<close> returned; the prompt that
  \<open>input\<close> writes is not recorded. The result says whether the loop goes on.
\<close>

datatype loop = Continue | Break

definition run_command :: "remote \<Rightarrow> string \<Rightarrow> bot \<Rightarrow> world \<Rightarrow> loop \<times> bot \<times> world" where
  "run_command rem line b w =
     (let command = py_strip line
      in if command = [] then (Continue, b, w)
         else case parse_command command of
                (None, args) \<Rightarrow> (Continue, b, w)
              | (Some cmd, args) \<Rightarrow>
                  if cmd = [] then (Continue, b, w)
                  else if cmd = ''quit'' \<or> cmd = ''exit''
                  then (Break, b, py_print [Lit Fore_YELLOW, Lit (waving_hand @ '' Goodbye!'')] w)
                  else case dispatch rem cmd args b w of
                         (Inr u, b1, w1) \<Rightarrow> (Continue, b1, w1)
                       | (Inl e, b1, w1) \<Rightarrow>
                           (Continue, b1,
                            log_msg cli_logger ERROR [Lit ''CLI error: '', ErrStr e]
                              (py_print [Lit Fore_RED, Lit (cross_mark @ '' Unexpected error: ''), ErrStr e] w1)))"

text \<open>What \<open>input\<close> does: it returns a line, or raises one of the two exceptions the loop ends on.\<close>

datatype event = Line string | KeyboardInterrupt | EOFError

text \<open>
  The loop on the events that arrive; the result says whether the loop has ended (it has
  not when the program still waits for input).
\<close>

fun run_loop :: "remote \<Rightarrow> event list \<Rightarrow> bot \<Rightarrow> world \<Rightarrow> bool \<times> bot \<times> world" where
  "run_loop rem [] b w = (False, b, w)"
| "run_loop rem (Line s # evs) b w =
     (case run_command rem s b w of
        (Continue, b1, w1) \<Rightarrow> run_loop rem evs b1 w1
      | (Break, b1, w1) \<Rightarrow> (True, b1, w1))"
| "run_loop rem (ev # evs) b w =
     (True, b, py_print [Lit [CHR 0x0A], Lit Fore_YELLOW, Lit (waving_hand @ '' Goodbye!'')] w)"

definition run :: "remote \<Rightarrow> event list \<Rightarrow> bot \<Rightarrow> world \<Rightarrow> (py_error + unit) \<times> bot \<times> world" where
  "run rem evs b w =
     (case start rem b (display_welcome w) of
        (b1, w1) \<Rightarrow>
          (case run_loop rem evs b1 w1 of
             (True, b2, w2) \<Rightarrow> stop b2 w2
           | (False, b2, w2) \<Rightarrow> (Inr (), b2, w2)))"

section \<open>Notions used in the statements\<close>

text \<open>The calls the orchestrator's two order methods lead to, through the adapter.\<close>

definition market_request :: "string \<Rightarrow> string \<Rightarrow> py_float \<Rightarrow> request" where
  "market_request symbol side quantity =
     Request ''futures_create_order''
       [(''symbol'', PStr symbol), (''side'', PStr side), (''type'', PStr ''MARKET''),
        (''quantity'', PFloat quantity), (''reduceOnly'', PBool False)]"

definition limit_request :: "string \<Rightarrow> string \<Rightarrow> py_float \<Rightarrow> py_float \<Rightarrow> request" where
  "limit_request symbol side quantity price =
     Request ''futures_create_order''
       [(''symbol'', PStr symbol), (''side'', PStr side), (''type'', PStr ''LIMIT''),
        (''quantity'', PFloat quantity), (''price'', PFloat price), (''timeInForce'', PStr ''GTC''),
        (''reduceOnly'', PBool False)]"

text \<open>The counters after one more attempt that was counted as a success, or as a failure.\<close>

definition succeeded :: "bot \<Rightarrow> bot" where
  "succeeded b = b\<lparr>trade_count := trade_count b + 1, successful_trades := successful_trades b + 1\<rparr>"

definition failed :: "bot \<Rightarrow> bot" where
  "failed b = b\<lparr>trade_count := trade_count b + 1, failed_trades := failed_trades b + 1\<rparr>"

definition counters_consistent :: "bot \<Rightarrow> bool" where
  "counters_consistent b =
     (0 \<le> successful_trades b \<and> 0 \<le> failed_trades b
      \<and> trade_count b = successful_trades b + failed_trades b)"

text \<open>The methods of the orchestrator, and the state each leaves when called.\<close>

datatype operation =
    Start
  | Stop
  | DisplayAccountInfo
  | DisplayPositions
  | DisplayOpenOrders "string option"
  | PlaceMarketOrder string string py_float
  | PlaceLimitOrder string string py_float py_float
  | CancelOrder string int
  | GetCurrentPrice string
  | DisplayPerformanceMetrics
  | ValidateSymbol string
  | GetSymbolInfo string

fun perform :: "remote \<Rightarrow> operation \<Rightarrow> bot \<Rightarrow> world \<Rightarrow> bot \<times> world" where
  "perform rem Start b w = start rem b w"
| "perform rem Stop b w = snd (stop b w)"
| "perform rem DisplayAccountInfo b w = (b, display_account_info rem w)"
| "perform rem DisplayPositions b w = (b, display_positions rem w)"
| "perform rem (DisplayOpenOrders symbol) b w = (b, display_open_orders rem symbol w)"
| "perform rem (PlaceMarketOrder symbol side quantity) b w =
     snd (bot_place_market_order rem symbol side quantity b w)"
| "perform rem (PlaceLimitOrder symbol side quantity price) b w =
     snd (bot_place_limit_order rem symbol side quantity price b w)"
| "perform rem (CancelOrder symbol order_id) b w = (b, snd (bot_cancel_order rem symbol order_id w))"
| "perform rem (GetCurrentPrice symbol) b w = (b, snd (bot_get_current_price rem symbol w))"
| "perform rem DisplayPerformanceMetrics b w = (b, snd (display_performance_metrics b w))"
| "perform rem (ValidateSymbol symbol) b w = (b, snd (validate_symbol rem symbol w))"
| "perform rem (GetSymbolInfo symbol) b w = (b, snd (bot_get_symbol_info rem symbol w))"

text \<open>A sequence of calls, one after the other.\<close>

fun perform_all :: "remote \<Rightarrow> operation list \<Rightarrow> bot \<Rightarrow> world \<Rightarrow> bot \<times> world" where
  "perform_all rem [] b w = (b, w)"
| "perform_all rem (op # ops) b w = (case perform rem op b w of (b1, w1) \<Rightarrow> perform_all rem ops b1 w1)"

text \<open>The two calls that are order-placement attempts.\<close>

fun places_order :: "operation \<Rightarrow> bool" where
  "places_order (PlaceMarketOrder symbol side quantity) = True"
| "places_order (PlaceLimitOrder symbol side quantity price) = True"
| "places_order _ = False"

section \<open>Concrete inputs\<close>

text \<open>
  Remote sides: one that answers every call with the same value, one that raises the same
  exception at every call, and one that goes through a list of answers, call by call.
\<close>

definition answers :: "pyval \<Rightarrow> remote" where
  "answers v h rq = Inr v"

definition raises :: "py_error \<Rightarrow> remote" where
  "raises e h rq = Inl e"

definition scripted :: "(py_error + pyval) list \<Rightarrow> remote" where
  "scripted rs h rq =
     (case drop (length h) rs of
        [] \<Rightarrow> Inl (OtherException ''ConnectionError'' ''no answer'')
      | r # rest \<Rightarrow> r)"

definition empty_world :: world where
  "empty_world = \<lparr>trace = [], logs = [], out = []\<rparr>"

definition new_bot :: bot where
  "new_bot = \<lparr>running = False, trade_count = 0, successful_trades = 0, failed_trades = 0\<rparr>"

definition example_order :: pyval where
  "example_order = PDict [(''orderId'', PInt 8886774), (''symbol'', PStr ''BTCUSDT''), (''status'', PStr ''NEW'')]"

definition example_positions :: pyval where
  "example_positions = PList
     [PDict [(''symbol'', PStr ''BTCUSDT''), (''positionAmt'', PStr ''0.000'')],
      PDict [(''symbol'', PStr ''ETHUSDT''), (''positionAmt'', PStr ''-1.5'')]]"

definition example_exchange_info :: pyval where
  "example_exchange_info = PDict
     [(''timezone'', PStr ''UTC''),
      (''symbols'', PList
         [PDict [(''symbol'', PStr ''BTCUSDT''), (''status'', PStr ''TRADING'')],
          PDict [(''symbol'', PStr ''ETHUSDT''), (''status'', PStr ''BREAK'')]])]"

text \<open>
  Three order attempts on a new orchestrator: a market order that is accepted, a limit
  order that the exchange rejects, a market order that is accepted.
\<close>

definition three_answers :: "(py_error + pyval) list" where
  "three_answers =
     [Inr example_order, Inl (BinanceAPIException ''Margin is insufficient.''), Inr example_order]"

definition after_three_orders :: bot where
  "after_three_orders =
     fst (perform_all (scripted three_answers)
            [PlaceMarketOrder ''BTCUSDT'' ''BUY'' (Finite 1),
             PlaceLimitOrder ''BTCUSDT'' ''BUY'' (Finite 1) (Finite 100),
             PlaceMarketOrder ''BTCUSDT'' ''SELL'' (Finite (1 / 2))]
            new_bot empty_world)"

section \<open>Properties\<close>

subsection \<open>Floats\<close>

text \<open>Rounding to an integer moves a value by at most one half.\<close>

lemma round_half_even_error: "\<bar>of_int (round_half_even y) - y\<bar> \<le> 1 / 2"
proof -
  have "of_int \<lfloor>y\<rfloor> \<le> y" "y < of_int \<lfloor>y\<rfloor> + 1" by linarith+
  then show ?thesis
    by (auto simp: round_half_even_def Let_def)
qed

lemma ilog2_bounds:
  assumes "0 < x"
  shows "2 powi (ilog2 x) \<le> x \<and> x < 2 powi (ilog2 x + 1)"
proof -
  obtain p q where pq: "quotient_of x = (p, q)" by (cases "quotient_of x")
  then have q: "0 < q" and x: "x = of_int p / of_int q"
    using quotient_of_denom_pos quotient_of_div by blast+
  with assms have p: "0 < p"
    by (simp add: zero_less_divide_iff)
  define bp bq where "bp = bitlen p" and "bq = bitlen q"
  have bp: "2 ^ nat (bp - 1) \<le> p" "p < 2 ^ nat bp" and bq: "2 ^ nat (bq - 1) \<le> q" "q < 2 ^ nat bq"
    using bitlen_bounds[OF p] bitlen_bounds[OF q] by (simp_all add: bp_def bq_def)
  have bp1: "1 \<le> bp" and bq1: "1 \<le> bq"
    using p q by (simp_all add: bp_def bq_def bitlen_alt_def)
  have P1: "(2::rat) powi (bp - 1) \<le> of_int p"
  proof -
    have "(of_int (2 ^ nat (bp - 1)) :: rat) \<le> of_int p" using bp(1) by (simp only: of_int_le_iff)
    then show ?thesis using bp1 by (simp add: power_int_def)
  qed
  have P2: "of_int p < (2::rat) powi bp"
  proof -
    have "(of_int p :: rat) < of_int (2 ^ nat bp)" using bp(2) by (simp only: of_int_less_iff)
    then show ?thesis using bp1 by (simp add: power_int_def)
  qed
  have Q1: "(2::rat) powi (bq - 1) \<le> of_int q"
  proof -
    have "(of_int (2 ^ nat (bq - 1)) :: rat) \<le> of_int q" using bq(1) by (simp only: of_int_le_iff)
    then show ?thesis using bq1 by (simp add: power_int_def)
  qed
  have Q2: "of_int q < (2::rat) powi bq"
  proof -
    have "(of_int q :: rat) < of_int (2 ^ nat bq)" using bq(2) by (simp only: of_int_less_iff)
    then show ?thesis using bq1 by (simp add: power_int_def)
  qed
  have qpos: "(0::rat) < of_int q" using q by simp
  have lo: "2 powi (bp - bq - 1) \<le> x"
  proof -
    have "(2::rat) powi (bp - bq - 1) * of_int q \<le> 2 powi (bp - bq - 1) * 2 powi bq"
      using Q2 by (intro mult_left_mono) auto
    also have "\<dots> = 2 powi (bp - 1)"
      by (simp add: power_int_add [symmetric])
    also have "\<dots> \<le> of_int p" by (rule P1)
    finally show ?thesis using qpos by (simp add: x pos_le_divide_eq)
  qed
  have hi: "x < 2 powi (bp - bq + 1)"
  proof -
    have "of_int p < (2::rat) powi bp" by (rule P2)
    also have "\<dots> = 2 powi (bp - bq + 1) * 2 powi (bq - 1)"
      by (simp add: power_int_add [symmetric])
    also have "\<dots> \<le> 2 powi (bp - bq + 1) * of_int q"
      using Q1 by (intro mult_left_mono) auto
    finally show ?thesis using qpos by (simp add: x pos_divide_less_eq)
  qed
  show ?thesis
    using lo hi by (auto simp: ilog2_def pq Let_def bp_def bq_def)
qed


lemma round_half_even_nonneg: "0 \<le> y \<Longrightarrow> 0 \<le> round_half_even y"
  by (auto simp: round_half_even_def Let_def)

lemma round_to_double_error:
  assumes "x \<noteq> 0"
  shows "\<bar>round_to_double x - x\<bar> \<le> 2 powi (max (ilog2 \<bar>x\<bar>) (- 1022) - 53)"
proof -
  define e where "e = max (ilog2 \<bar>x\<bar>) (- 1022)"
  define u :: rat where "u = 2 powi (e - 52)"
  define n where "n = round_half_even (\<bar>x\<bar> / u)"
  have u: "0 < u" by (simp add: u_def)
  have r: "round_to_double x = sgn x * of_int n * u"
    using assms by (simp add: round_to_double_def Let_def e_def u_def n_def)
  have "x = sgn x * \<bar>x\<bar>" by (simp add: sgn_mult_abs)
  then have "round_to_double x - x = sgn x * ((of_int n - \<bar>x\<bar> / u) * u)"
    using u by (simp add: r field_simps flip: abs_sgn)
  then have "\<bar>round_to_double x - x\<bar> = \<bar>of_int n - \<bar>x\<bar> / u\<bar> * u"
    using assms u by (simp add: abs_mult abs_sgn_eq)
  also have "\<dots> \<le> 1 / 2 * u"
    using round_half_even_error [of "\<bar>x\<bar> / u"] u
    by (intro mult_right_mono) (simp_all add: n_def)
  also have "\<dots> = 2 powi (e - 53)"
  proof -
    have "(2::rat) powi (e - 52) = 2 powi (e - 53 + 1)" by simp
    also have "\<dots> = 2 powi (e - 53) * 2" by (subst power_int_add) simp_all
    finally show ?thesis by (simp add: u_def)
  qed
  finally show ?thesis by (simp add: e_def)
qed

lemma round_to_double_nonneg: "0 \<le> x \<Longrightarrow> 0 \<le> round_to_double x"
  by (auto simp: round_to_double_def Let_def sgn_if intro!: mult_nonneg_nonneg round_half_even_nonneg)

lemma ilog2_le:
  assumes "0 < x" and "x < 2 powi k"
  shows "ilog2 x < k"
proof -
  have lt: "(2::rat) powi (ilog2 x) < 2 powi k"
    using ilog2_bounds [OF assms(1)] assms(2) by linarith
  show ?thesis
  proof (rule ccontr)
    assume "\<not> ilog2 x < k"
    then have "(2::rat) powi k \<le> 2 powi (ilog2 x)"
      by (intro power_int_increasing) simp_all
    with lt show False by simp
  qed
qed


lemma to_float_finite:
  assumes "0 < x" and "x < 2 powi k" and "k \<le> 1023"
  shows "\<exists>r. to_float x = Finite r \<and> 0 \<le> r \<and> \<bar>r - x\<bar> \<le> 2 powi (max (k - 1) (- 1022) - 53)"
proof -
  define r where "r = round_to_double x"
  have "ilog2 x < k" using assms(1,2) by (rule ilog2_le)
  then have "max (ilog2 \<bar>x\<bar>) (- 1022) - 53 \<le> max (k - 1) (- 1022) - 53"
    using assms(1) by simp
  then have "(2::rat) powi (max (ilog2 \<bar>x\<bar>) (- 1022) - 53) \<le> 2 powi (max (k - 1) (- 1022) - 53)"
    by (intro power_int_increasing) simp_all
  with round_to_double_error [of x] assms(1)
  have err: "\<bar>r - x\<bar> \<le> 2 powi (max (k - 1) (- 1022) - 53)"
    by (simp add: r_def)
  have nonneg: "0 \<le> r"
    using assms(1) by (simp add: r_def round_to_double_nonneg)
  have "(2::rat) powi (max (k - 1) (- 1022) - 53) \<le> 2 powi 1023"
    using assms(3) by (intro power_int_increasing) simp_all
  moreover have "(2::rat) powi k \<le> 2 powi 1023"
    using assms(3) by (intro power_int_increasing) simp_all
  moreover have "(2::rat) powi 1024 = 2 powi 1023 + 2 powi 1023"
    by simp
  ultimately have "r < 2 powi 1024"
    using err assms(2) by linarith
  then have "to_float x = Finite r"
    using nonneg assms(1) by (simp add: to_float_def r_def Let_def)
  with nonneg err show ?thesis by blast
qed

lemma success_rate_value:
  assumes "0 \<le> successful_trades b" and "successful_trades b \<le> trade_count b" and "0 < trade_count b"
  shows "\<exists>q. success_rate b = Inr (Finite q) \<and> 0 \<le> q
            \<and> \<bar>q - 100 * of_int (successful_trades b) / of_int (trade_count b)\<bar> \<le> 2 powi (- 45)"
proof (cases "successful_trades b = 0")
  case True
  then show ?thesis
    using assms(3)
    by (simp add: success_rate_def py_truediv_def py_float_mul_def float_is_inf_def float_is_zero_def
        float_is_neg_def)
next
  case False
  define x :: rat where "x = of_int (successful_trades b) / of_int (trade_count b)"
  have x: "0 < x" "x \<le> 1"
    using assms False by (simp_all add: x_def)
  then have "x < 2 powi 1" by simp
  with x(1) obtain r where r: "to_float x = Finite r" "0 \<le> r" "\<bar>r - x\<bar> \<le> 2 powi (max (1 - 1) (- 1022) - 53)"
    using to_float_finite [of x 1] by auto
  from r(3) have rerr: "\<bar>r - x\<bar> \<le> 2 powi (- 53)" by simp
  have div: "py_truediv (successful_trades b) (trade_count b) = Inr (Finite r)"
    using assms(3) False r(1) by (simp add: py_truediv_def x_def)
  have p53: "(2::rat) powi (- 53) = 1 / 2 ^ 53" "(2::rat) powi (- 45) = 1 / 2 ^ 45" "(2::rat) powi (- 47) = 1 / 2 ^ 47"
    by (simp_all add: power_int_minus_divide)
  show ?thesis
  proof (cases "r = 0")
    case True
    then have "success_rate b = Inr (Finite 0)"
      by (simp add: success_rate_def div py_float_mul_def float_is_inf_def float_is_zero_def float_is_neg_def)
    moreover have "\<bar>0 - 100 * x\<bar> \<le> 2 powi (- 45)"
      using rerr True x(1) by (simp add: p53)
    ultimately show ?thesis by (simp add: x_def)
  next
    case False
    with r(2) have rpos: "0 < r" by simp
    have "r \<le> 1 + 2 powi (- 53)" using rerr x(2) by linarith
    then have "r * 100 < 2 powi 7" by (simp add: p53)
    with rpos obtain q where q: "to_float (r * 100) = Finite q" "0 \<le> q"
        "\<bar>q - r * 100\<bar> \<le> 2 powi (max (7 - 1) (- 1022) - 53)"
      using to_float_finite [of "r * 100" 7] by auto
    from q(3) have qerr: "\<bar>q - r * 100\<bar> \<le> 2 powi (- 47)" by simp
    have "success_rate b = Inr (Finite q)"
      using False q(1)
      by (simp add: success_rate_def div py_float_mul_def float_is_inf_def float_is_zero_def float_is_neg_def)
    moreover have "\<bar>q - 100 * x\<bar> \<le> 2 powi (- 45)"
    proof -
      have "q - 100 * x = (q - r * 100) + 100 * (r - x)" by simp
      then have "\<bar>q - 100 * x\<bar> \<le> \<bar>q - r * 100\<bar> + \<bar>100 * (r - x)\<bar>"
        by (simp only: abs_triangle_ineq)
      also have "\<dots> = \<bar>q - r * 100\<bar> + 100 * \<bar>r - x\<bar>"
        by (simp only: abs_mult abs_numeral)
      finally have "\<bar>q - 100 * x\<bar> \<le> \<bar>q - r * 100\<bar> + 100 * \<bar>r - x\<bar>" .
      also have "\<dots> \<le> 1 / 2 ^ 47 + 100 * (1 / 2 ^ 53)"
        using qerr rerr unfolding p53 by (intro add_mono mult_left_mono) simp_all
      also have "\<dots> \<le> 1 / 2 ^ 45" by simp
      finally show ?thesis by (simp only: p53)
    qed
    ultimately show ?thesis using q(2) by (auto simp: x_def)
  qed
qed

text \<open>
  The exponent is determined by its bounds, which lets the simplifier evaluate the
  rounding on concrete values.
\<close>

lemma ilog2_eqI:
  assumes "0 < x" and "2 powi e \<le> x" and "x < 2 powi (e + 1)"
  shows "ilog2 x = e"
proof -
  have b: "2 powi (ilog2 x) \<le> x" "x < 2 powi (ilog2 x + 1)"
    using ilog2_bounds [OF assms(1)] by simp_all
  have "\<not> ilog2 x < e"
  proof
    assume "ilog2 x < e"
    then have "(2::rat) powi (ilog2 x + 1) \<le> 2 powi e"
      by (intro power_int_increasing) simp_all
    with b(2) assms(2) show False by linarith
  qed
  moreover have "\<not> e < ilog2 x"
  proof
    assume "e < ilog2 x"
    then have "(2::rat) powi (e + 1) \<le> 2 powi (ilog2 x)"
      by (intro power_int_increasing) simp_all
    with b(1) assms(3) show False by linarith
  qed
  ultimately show ?thesis by simp
qed

lemma floor_numeral_divide: "\<lfloor>numeral a / numeral b :: rat\<rfloor> = numeral a div numeral b"
  using floor_divide_of_int_eq [of "numeral a" "numeral b", where ?'a = rat] by simp

lemma ilog2_two_thirds: "ilog2 (2 / 3) = - 1"
  by (rule ilog2_eqI) (simp_all add: power_int_minus_divide)

lemma py_truediv_2_3: "py_truediv 2 3 = Inr (Finite (6004799503160661 / 9007199254740992))"
  by (simp add: py_truediv_def to_float_def round_to_double_def round_half_even_def Let_def
      ilog2_two_thirds power_int_minus_divide floor_numeral_divide)

lemma ilog2_rate: "ilog2 (150119987579016525 / 2251799813685248) = 6"
  by (rule ilog2_eqI) (simp_all add: power_int_minus_divide)

lemma mul_100: "py_float_mul (Finite (6004799503160661 / 9007199254740992)) (Finite 100)
     = Finite (2345624805922133 / 35184372088832)"
  by (simp add: py_float_mul_def float_is_inf_def float_is_zero_def float_is_neg_def
      to_float_def round_to_double_def round_half_even_def Let_def ilog2_rate power_int_minus_divide
      floor_numeral_divide)

lemma round_rate: "nat (round_half_even (2345624805922133 / 35184372088832 * 100)) = 6667"
  by (simp add: round_half_even_def Let_def floor_numeral_divide)

lemma two_decimals_6667: "two_decimals 6667 = ''66.67''"
  by (simp add: two_decimals_def string_of_nat.simps char_of_eq_iff)

lemma ilog2_three_halves: "ilog2 (3 / 2) = 0"
  by (rule ilog2_eqI) simp_all

lemma float_of_string_zero: "float_of_string ''0.000'' = Inr (Finite 0)"
  by (simp add: float_of_string_def numeral_strip_def numeral_space_def split_sign_def is_digit_def py_lower_def
      lower_char_def parse_decimal_def parse_exponent_def digits_val_def digit_val_def Let_def)

lemma float_of_string_minus: "float_of_string ''-1.5'' = Inr (Finite (- (3 / 2)))"
  by (simp add: float_of_string_def numeral_strip_def numeral_space_def split_sign_def is_digit_def py_lower_def
      lower_char_def parse_decimal_def parse_exponent_def digits_val_def digit_val_def Let_def
      to_float_def round_to_double_def round_half_even_def ilog2_three_halves power_int_minus_divide
      floor_numeral_divide)

text \<open>The two decimals that \<open>format_2f\<close> writes are within half a hundredth of the value.\<close>

lemma format_2f_nonneg:
  assumes "0 \<le> q"
  shows "format_2f (Finite q) = two_decimals (nat (round_half_even (q * 100)))
         \<and> \<bar>of_nat (nat (round_half_even (q * 100))) / 100 - q\<bar> \<le> 1 / 200"
proof -
  have n: "0 \<le> round_half_even (q * 100)"
    using assms by (intro round_half_even_nonneg) simp
  have "\<bar>of_int (round_half_even (q * 100)) - q * 100\<bar> \<le> 1 / 2"
    by (rule round_half_even_error)
  then have "\<bar>(of_int (round_half_even (q * 100)) - q * 100) / 100\<bar> \<le> 1 / 2 / 100"
    by (simp only: abs_divide abs_numeral divide_right_mono zero_le_numeral)
  then have "\<bar>(of_int (round_half_even (q * 100)) :: rat) / 100 - q\<bar> \<le> 1 / 200"
    by (simp add: diff_divide_distrib)
  moreover have "(of_nat (nat (round_half_even (q * 100))) :: rat) = of_int (round_half_even (q * 100))"
    using n by simp
  ultimately show ?thesis
    using assms by (simp add: format_2f_def)
qed

subsection \<open>The stop order of the adapter\<close>

text \<open>
  C1. Whatever the arguments and whatever the remote side answers,
  \<open>place_stop_limit_order\<close> makes exactly one call to the SDK, the order-creation call
  with type \<open>STOP_MARKET\<close> and the symbol, side, quantity, stop price and time in force
  it was given; and the \<open>price\<close> argument has no influence on the call made, on the
  result or on anything logged.
\<close>

theorem place_stop_limit_order_request:
  "trace (snd (place_stop_limit_order rem symbol side quantity price stop_price time_in_force w))
     = trace w @
       [Request ''futures_create_order''
          [(''symbol'', PStr symbol), (''side'', PStr side), (''type'', PStr ''STOP_MARKET''),
           (''quantity'', PFloat quantity), (''stopPrice'', PFloat stop_price),
           (''timeInForce'', PStr time_in_force)]]
   \<and> place_stop_limit_order rem symbol side quantity price stop_price time_in_force w
     = place_stop_limit_order rem symbol side quantity price' stop_price time_in_force w"
  by (simp add: place_stop_limit_order_def sdk_call_def log_msg_def Let_def split: sum.splits prod.splits)

subsection \<open>Positions\<close>

lemma filter_raising_sound:
  "filter_raising p xs = Inr ys \<Longrightarrow> y \<in> set ys \<Longrightarrow> p y = Inr True \<and> y \<in> set xs"
proof (induction xs arbitrary: ys)
  case Nil
  then show ?case by simp
next
  case (Cons x xs)
  then show ?case
    by (auto split: sum.splits if_splits)
qed

lemma nonzero_size_True:
  "nonzero_size pos = Inr True \<Longrightarrow>
     \<exists>a f. py_getitem pos ''positionAmt'' = Inr a \<and> py_float_of a = Inr f \<and> f \<noteq> Finite 0 \<and> f \<noteq> NegZero"
  by (auto simp: nonzero_size_def float_ne_zero_def split: sum.splits py_float.splits)

lemma active_positions_sound:
  "active_positions symbol positions = Inr ps \<Longrightarrow> pos \<in> set ps \<Longrightarrow> nonzero_size pos = Inr True"
  by (auto simp: active_positions_def split: sum.splits option.splits dest: filter_raising_sound)

text \<open>
  C3. Whatever the remote side answers and whatever symbol is asked for, every position
  in a list that \<open>get_positions\<close> returns has a \<open>positionAmt\<close> field that \<open>float\<close>
  converts, and the float is not a zero.
\<close>

theorem get_positions_nonzero:
  assumes "fst (get_positions rem symbol w) = Inr ps" and "pos \<in> set ps"
  shows "\<exists>a f. py_getitem pos ''positionAmt'' = Inr a \<and> py_float_of a = Inr f
               \<and> f \<noteq> Finite 0 \<and> f \<noteq> NegZero"
proof -
  from assms(1) obtain positions where "active_positions symbol positions = Inr ps"
    by (auto simp: get_positions_def sdk_call_def Let_def split: sum.splits prod.splits)
  then have "nonzero_size pos = Inr True"
    using assms(2) by (rule active_positions_sound)
  then show ?thesis by (rule nonzero_size_True)
qed

lemma get_positions_example:
  "fst (get_positions (answers example_positions) None empty_world)
     = Inr [PDict [(''symbol'', PStr ''ETHUSDT''), (''positionAmt'', PStr ''-1.5'')]]"
  by (simp add: get_positions_def sdk_call_def answers_def example_positions_def active_positions_def
      given_symbol_def nonzero_size_def float_of_string_zero float_of_string_minus float_ne_zero_def)

theorem get_positions_nonzero_witness:
  "fst (get_positions (answers example_positions) None empty_world)
     = Inr [PDict [(''symbol'', PStr ''ETHUSDT''), (''positionAmt'', PStr ''-1.5'')]]
   \<and> (\<exists>a f. py_getitem (PDict [(''symbol'', PStr ''ETHUSDT''), (''positionAmt'', PStr ''-1.5'')]) ''positionAmt'' = Inr a
             \<and> py_float_of a = Inr f \<and> f \<noteq> Finite 0 \<and> f \<noteq> NegZero)"
  using get_positions_nonzero [of "answers example_positions" None empty_world
          "[PDict [(''symbol'', PStr ''ETHUSDT''), (''positionAmt'', PStr ''-1.5'')]]"
          "PDict [(''symbol'', PStr ''ETHUSDT''), (''positionAmt'', PStr ''-1.5'')]"]
        get_positions_example
  by simp

subsection \<open>Symbols\<close>

lemma find_symbol_find:
  "list_all (\<lambda>entry. \<exists>s. py_getitem entry ''symbol'' = Inr s) entries \<Longrightarrow>
   find_symbol symbol entries =
     (case find (\<lambda>entry. py_getitem entry ''symbol'' = Inr (PStr symbol)) entries of
        None \<Rightarrow> Inl (ValueError (''Symbol '' @ symbol @ '' not found''))
      | Some entry \<Rightarrow> Inr entry)"
  by (induction entries) auto

text \<open>
  C8, as amended. When the remote side answers the metadata call with a dictionary whose
  \<open>symbols\<close> field is a list of entries that each have a \<open>symbol\<close> field,
  \<open>get_symbol_info\<close> returns the first entry whose \<open>symbol\<close> is the symbol asked for,
  and when there is none it raises \<open>ValueError\<close> with the message
  \<open>Symbol <symbol> not found\<close>.
\<close>

theorem get_symbol_info_lookup:
  assumes "rem (trace w) (Request ''futures_exchange_info'' []) = Inr exchange_info"
    and "py_getitem exchange_info ''symbols'' = Inr (PList entries)"
    and "list_all (\<lambda>entry. \<exists>s. py_getitem entry ''symbol'' = Inr s) entries"
  shows "fst (get_symbol_info rem symbol w) =
           (case find (\<lambda>entry. py_getitem entry ''symbol'' = Inr (PStr symbol)) entries of
              None \<Rightarrow> Inl (ValueError (''Symbol '' @ symbol @ '' not found''))
            | Some entry \<Rightarrow> Inr entry)"
  using assms
  by (simp add: get_symbol_info_def sdk_call_def find_symbol_find split: sum.splits option.splits)

theorem get_symbol_info_lookup_witness:
  "fst (get_symbol_info (answers example_exchange_info) ''ETHUSDT'' empty_world)
     = Inr (PDict [(''symbol'', PStr ''ETHUSDT''), (''status'', PStr ''BREAK'')])
   \<and> fst (get_symbol_info (answers example_exchange_info) ''XRPUSDT'' empty_world)
     = Inl (ValueError ''Symbol XRPUSDT not found'')"
  using get_symbol_info_lookup [of "answers example_exchange_info" empty_world example_exchange_info
          "[PDict [(''symbol'', PStr ''BTCUSDT''), (''status'', PStr ''TRADING'')],
            PDict [(''symbol'', PStr ''ETHUSDT''), (''status'', PStr ''BREAK'')]]" "''ETHUSDT''"]
        get_symbol_info_lookup [of "answers example_exchange_info" empty_world example_exchange_info
          "[PDict [(''symbol'', PStr ''BTCUSDT''), (''status'', PStr ''TRADING'')],
            PDict [(''symbol'', PStr ''ETHUSDT''), (''status'', PStr ''BREAK'')]]" "''XRPUSDT''"]
  by (simp add: answers_def example_exchange_info_def)

text \<open>
  The claim as first stated names the exception \<open>NotFoundError\<close>. The program defines
  no exception class; for a symbol that is absent from well-formed metadata the exception
  is the built-in \<open>ValueError\<close>.
\<close>

theorem get_symbol_info_absent_is_ValueError:
  "fst (get_symbol_info (answers example_exchange_info) ''DOGEUSDT'' empty_world)
     = Inl (ValueError ''Symbol DOGEUSDT not found'')"
  by (simp add: get_symbol_info_def sdk_call_def answers_def example_exchange_info_def)

text \<open>
  C4. \<open>validate_symbol\<close> returns a truth value, and the value is true exactly when
  \<open>get_symbol_info\<close> returns an entry and the \<open>status\<close> of the entry is the string
  \<open>TRADING\<close>. So it is false when the lookup raises and false when the status is
  another one (or is missing), and the caller is told nothing more.
\<close>

theorem validate_symbol_iff:
  "fst (validate_symbol rem symbol w) =
     (\<exists>info. fst (get_symbol_info rem symbol w) = Inr info
             \<and> py_getitem info ''status'' = Inr (PStr ''TRADING''))"
  by (auto simp: validate_symbol_def and_then_def evaluating_def split: prod.splits sum.splits)

lemma validate_symbol_examples:
  "fst (validate_symbol (answers example_exchange_info) ''BTCUSDT'' empty_world) = True"
  "fst (validate_symbol (answers example_exchange_info) ''ETHUSDT'' empty_world) = False"
  "fst (validate_symbol (raises (OtherException ''ConnectionError'' ''unreachable'')) ''BTCUSDT'' empty_world) = False"
  by (simp_all add: validate_symbol_def and_then_def evaluating_def get_symbol_info_def sdk_call_def
      answers_def raises_def example_exchange_info_def)


subsection \<open>Order placement by the orchestrator\<close>

lemma log_msg_trace [simp]: "trace (log_msg n l m w) = trace w"
  by (simp add: log_msg_def)

lemma py_print_trace [simp]: "trace (py_print l w) = trace w"
  by (simp add: py_print_def)

lemma place_market_order_result:
  "fst (place_market_order rem symbol side quantity False w) = rem (trace w) (market_request symbol side quantity)"
  by (simp add: place_market_order_def sdk_call_def market_request_def Let_def split: sum.splits)

lemma place_limit_order_result:
  "fst (place_limit_order rem symbol side quantity price ''GTC'' False w)
     = rem (trace w) (limit_request symbol side quantity price)"
  by (simp add: place_limit_order_def sdk_call_def limit_request_def Let_def split: sum.splits)

lemma market_order_failed_bot [simp]:
  "fst (market_order_failed symbol side quantity e b w) = False"
  "fst (snd (market_order_failed symbol side quantity e b w)) = failed b"
  by (simp_all add: market_order_failed_def failed_def Let_def)

lemma limit_order_failed_bot [simp]:
  "fst (limit_order_failed symbol side quantity price e b w) = False"
  "fst (snd (limit_order_failed symbol side quantity price e b w)) = failed b"
  by (simp_all add: limit_order_failed_def failed_def Let_def)

text \<open>
  What the two order methods return and what they do to the counters, in every case:
  the call raised, the answer has no \<open>orderId\<close>, the answer has an \<open>orderId\<close> and no
  \<open>status\<close>, the answer has both.
\<close>

lemma bot_place_market_order_cases:
  "(fst (bot_place_market_order rem symbol side quantity b w),
    fst (snd (bot_place_market_order rem symbol side quantity b w))) =
     (case rem (trace w) (market_request symbol side quantity) of
        Inl e \<Rightarrow> (False, failed b)
      | Inr order \<Rightarrow>
          (case py_getitem order ''orderId'' of
             Inl e \<Rightarrow> (False, failed b)
           | Inr i \<Rightarrow>
               (case py_getitem order ''status'' of
                  Inl e \<Rightarrow> (False, failed (succeeded b))
                | Inr st \<Rightarrow> (True, succeeded b))))"
proof -
  have r: "fst (place_market_order rem symbol side quantity False
             (log_msg bot_logger INFO
                [Lit ''Placing market '', Lit side, Lit '' order for '', Str (PFloat quantity), Lit '' '', Lit symbol] w))
           = rem (trace w) (market_request symbol side quantity)"
    by (simp add: place_market_order_result)
  show ?thesis
    using r
    by (auto simp: bot_place_market_order_def Let_def succeeded_def split: prod.splits sum.splits)
qed

lemma bot_place_limit_order_cases:
  "(fst (bot_place_limit_order rem symbol side quantity price b w),
    fst (snd (bot_place_limit_order rem symbol side quantity price b w))) =
     (case rem (trace w) (limit_request symbol side quantity price) of
        Inl e \<Rightarrow> (False, failed b)
      | Inr order \<Rightarrow>
          (case py_getitem order ''orderId'' of
             Inl e \<Rightarrow> (False, failed b)
           | Inr i \<Rightarrow>
               (case py_getitem order ''status'' of
                  Inl e \<Rightarrow> (False, failed (succeeded b))
                | Inr st \<Rightarrow> (True, succeeded b))))"
proof -
  have r: "fst (place_limit_order rem symbol side quantity price ''GTC'' False
             (log_msg bot_logger INFO
                [Lit ''Placing limit '', Lit side, Lit '' order for '', Str (PFloat quantity), Lit '' '', Lit symbol,
                 Lit '' at '', Str (PFloat price)] w))
           = rem (trace w) (limit_request symbol side quantity price)"
    by (simp add: place_limit_order_result)
  show ?thesis
    using r
    by (auto simp: bot_place_limit_order_def Let_def succeeded_def split: prod.splits sum.splits)
qed

text \<open>
  C2, as amended. The two order methods of the orchestrator return a truth value and
  never raise. When the remote side answers the order-creation call with an order that
  has an \<open>orderId\<close> and a \<open>status\<close>, the method returns true, and the attempt and the
  success counters have gone up by one; when the call raises, whatever the exception,
  the method returns false, and the attempt and the failure counters have gone up by one.
\<close>

theorem place_order_counted:
  "(rem (trace w) (market_request symbol side quantity) = Inr order
      \<and> py_getitem order ''orderId'' = Inr i \<and> py_getitem order ''status'' = Inr st
    \<longrightarrow> fst (bot_place_market_order rem symbol side quantity b w) = True
        \<and> fst (snd (bot_place_market_order rem symbol side quantity b w)) = succeeded b)
 \<and> (rem (trace w) (market_request symbol side quantity) = Inl e
    \<longrightarrow> fst (bot_place_market_order rem symbol side quantity b w) = False
        \<and> fst (snd (bot_place_market_order rem symbol side quantity b w)) = failed b)
 \<and> (rem (trace w) (limit_request symbol side quantity price) = Inr order
      \<and> py_getitem order ''orderId'' = Inr i \<and> py_getitem order ''status'' = Inr st
    \<longrightarrow> fst (bot_place_limit_order rem symbol side quantity price b w) = True
        \<and> fst (snd (bot_place_limit_order rem symbol side quantity price b w)) = succeeded b)
 \<and> (rem (trace w) (limit_request symbol side quantity price) = Inl e
    \<longrightarrow> fst (bot_place_limit_order rem symbol side quantity price b w) = False
        \<and> fst (snd (bot_place_limit_order rem symbol side quantity price b w)) = failed b)"
  using bot_place_market_order_cases [of rem symbol side quantity b w]
        bot_place_limit_order_cases [of rem symbol side quantity price b w]
  by (auto split: sum.splits)

theorem place_order_counted_witness:
  "answers example_order (trace empty_world) (market_request ''BTCUSDT'' ''BUY'' (Finite 1)) = Inr example_order
   \<and> py_getitem example_order ''orderId'' = Inr (PInt 8886774)
   \<and> py_getitem example_order ''status'' = Inr (PStr ''NEW'')
   \<and> fst (bot_place_market_order (answers example_order) ''BTCUSDT'' ''BUY'' (Finite 1) new_bot empty_world) = True
   \<and> fst (snd (bot_place_market_order (answers example_order) ''BTCUSDT'' ''BUY'' (Finite 1) new_bot empty_world))
       = \<lparr>running = False, trade_count = 1, successful_trades = 1, failed_trades = 0\<rparr>
   \<and> fst (bot_place_limit_order (answers example_order) ''BTCUSDT'' ''BUY'' (Finite 1) (Finite 100) new_bot empty_world) = True
   \<and> fst (snd (bot_place_limit_order (answers example_order) ''BTCUSDT'' ''BUY'' (Finite 1) (Finite 100) new_bot empty_world))
       = \<lparr>running = False, trade_count = 1, successful_trades = 1, failed_trades = 0\<rparr>
   \<and> raises (BinanceAPIException ''Margin is insufficient.'') (trace empty_world)
         (market_request ''BTCUSDT'' ''BUY'' (Finite 1)) = Inl (BinanceAPIException ''Margin is insufficient.'')
   \<and> fst (bot_place_market_order (raises (BinanceAPIException ''Margin is insufficient.''))
             ''BTCUSDT'' ''BUY'' (Finite 1) new_bot empty_world) = False
   \<and> fst (snd (bot_place_market_order (raises (BinanceAPIException ''Margin is insufficient.''))
             ''BTCUSDT'' ''BUY'' (Finite 1) new_bot empty_world))
       = \<lparr>running = False, trade_count = 1, successful_trades = 0, failed_trades = 1\<rparr>
   \<and> fst (bot_place_limit_order (raises (BinanceAPIException ''Margin is insufficient.''))
             ''BTCUSDT'' ''BUY'' (Finite 1) (Finite 100) new_bot empty_world) = False
   \<and> fst (snd (bot_place_limit_order (raises (BinanceAPIException ''Margin is insufficient.''))
             ''BTCUSDT'' ''BUY'' (Finite 1) (Finite 100) new_bot empty_world))
       = \<lparr>running = False, trade_count = 1, successful_trades = 0, failed_trades = 1\<rparr>"
  using place_order_counted [of "answers example_order" empty_world "''BTCUSDT''" "''BUY''" "Finite 1"
          example_order "PInt 8886774" "PStr ''NEW''" new_bot "BinanceAPIException ''Margin is insufficient.''" "Finite 100"]
        place_order_counted [of "raises (BinanceAPIException ''Margin is insufficient.'')" empty_world
          "''BTCUSDT''" "''BUY''" "Finite 1"
          example_order "PInt 8886774" "PStr ''NEW''" new_bot "BinanceAPIException ''Margin is insufficient.''" "Finite 100"]
  by (simp add: answers_def raises_def example_order_def new_bot_def succeeded_def failed_def)

text \<open>
  The claim as first stated asks nothing of the answer. An answer without \<open>orderId\<close> is a
  call of the adapter that succeeded, and the method returns false and counts a failure.
\<close>

theorem place_order_answer_without_orderId:
  "fst (place_market_order (answers (PDict [])) ''BTCUSDT'' ''BUY'' (Finite 1) False empty_world) = Inr (PDict [])
   \<and> fst (bot_place_market_order (answers (PDict [])) ''BTCUSDT'' ''BUY'' (Finite 1) new_bot empty_world) = False
   \<and> fst (snd (bot_place_market_order (answers (PDict [])) ''BTCUSDT'' ''BUY'' (Finite 1) new_bot empty_world))
       = \<lparr>running = False, trade_count = 1, successful_trades = 0, failed_trades = 1\<rparr>"
  using bot_place_market_order_cases [of "answers (PDict [])" "''BTCUSDT''" "''BUY''" "Finite 1" new_bot empty_world]
  by (simp add: place_market_order_result answers_def new_bot_def failed_def)

text \<open>
  C10. The claim holds of every answer but one kind: when the remote side answers the
  order-creation call with an order that has an \<open>orderId\<close> and no \<open>status\<close>, the
  success has been counted before the missing field is read, and the \<open>except\<close> clause
  then counts the same attempt again, as a failure. The method returns false, the attempt
  counter has gone up by two, and both other counters by one.
\<close>

theorem order_counted_twice:
  "fst (place_market_order (answers (PDict [(''orderId'', PInt 1)])) ''BTCUSDT'' ''BUY'' (Finite 1) False empty_world)
     = Inr (PDict [(''orderId'', PInt 1)])
   \<and> fst (bot_place_market_order (answers (PDict [(''orderId'', PInt 1)])) ''BTCUSDT'' ''BUY'' (Finite 1)
            new_bot empty_world) = False
   \<and> fst (snd (bot_place_market_order (answers (PDict [(''orderId'', PInt 1)])) ''BTCUSDT'' ''BUY'' (Finite 1)
            new_bot empty_world))
       = \<lparr>running = False, trade_count = 2, successful_trades = 1, failed_trades = 1\<rparr>"
  using bot_place_market_order_cases [of "answers (PDict [(''orderId'', PInt 1)])" "''BTCUSDT''" "''BUY''" "Finite 1"
          new_bot empty_world]
  by (simp add: place_market_order_result answers_def new_bot_def failed_def succeeded_def)

text \<open>
  What does hold of every call: the attempts are the successes and the failures together,
  on a new orchestrator and after every method; and only the two order methods touch the
  counters.
\<close>

lemma counters_consistent_succeeded: "counters_consistent b \<Longrightarrow> counters_consistent (succeeded b)"
  by (simp add: counters_consistent_def succeeded_def)

lemma counters_consistent_failed: "counters_consistent b \<Longrightarrow> counters_consistent (failed b)"
  by (simp add: counters_consistent_def failed_def)

lemma counters_consistent_place_market:
  "counters_consistent b \<Longrightarrow> counters_consistent (fst (snd (bot_place_market_order rem symbol side quantity b w)))"
  using bot_place_market_order_cases [of rem symbol side quantity b w]
  by (auto split: sum.splits intro: counters_consistent_succeeded counters_consistent_failed)

lemma counters_consistent_place_limit:
  "counters_consistent b \<Longrightarrow> counters_consistent (fst (snd (bot_place_limit_order rem symbol side quantity price b w)))"
  using bot_place_limit_order_cases [of rem symbol side quantity price b w]
  by (auto split: sum.splits intro: counters_consistent_succeeded counters_consistent_failed)

lemma TradingBot_init_counters:
  "fst (TradingBot_init rem cfg w) = Inr b \<Longrightarrow> b = new_bot \<and> counters_consistent b"
  by (auto simp: TradingBot_init_def new_bot_def counters_consistent_def split: prod.splits sum.splits)

lemma counters_consistent_running [simp]: "counters_consistent (b\<lparr>running := r\<rparr>) = counters_consistent b"
  by (simp add: counters_consistent_def)

lemma perform_counters_consistent:
  "counters_consistent b \<Longrightarrow> counters_consistent (fst (perform rem op b w))"
  by (cases op)
     (simp_all add: start_def stop_def Let_def split_beta counters_consistent_place_market
        counters_consistent_place_limit)

lemma perform_all_counters_consistent:
  "counters_consistent b \<Longrightarrow> counters_consistent (fst (perform_all rem ops b w))"
proof (induction ops arbitrary: b w)
  case Nil
  then show ?case by simp
next
  case (Cons op ops)
  obtain b1 w1 where p: "perform rem op b w = (b1, w1)" by (cases "perform rem op b w")
  with Cons.prems have "counters_consistent b1"
    using perform_counters_consistent [of b rem op w] by simp
  then have "counters_consistent (fst (perform_all rem ops b1 w1))" by (rule Cons.IH)
  with p show ?case by simp
qed

lemma perform_other_counters:
  assumes "\<not> places_order op"
  shows "trade_count (fst (perform rem op b w)) = trade_count b
       \<and> successful_trades (fst (perform rem op b w)) = successful_trades b
       \<and> failed_trades (fst (perform rem op b w)) = failed_trades b"
  using assms by (cases op) (simp_all add: start_def stop_def Let_def split_beta)

subsection \<open>The performance report\<close>

lemma log_msg_out [simp]: "out (log_msg n l m w) = out w"
  by (simp add: log_msg_def)

lemma printing_out: "out (snd (printing ls w)) = out w @ ls"
proof (induction ls arbitrary: w)
  case Nil
  then show ?case by (simp add: printing_def)
next
  case (Cons l ls)
  from Cons [of "py_print l w"] show ?case
    by (simp add: printing_def py_print_def)
qed

lemma printing_fst [simp]: "fst (printing ls w) = Inr ()"
  by (simp add: printing_def)

lemma printing_trace [simp]: "trace (snd (printing ls w)) = trace w"
  by (induction ls arbitrary: w) (simp_all add: printing_def)

lemma py_truediv_ZeroDivisionError: "py_truediv a b = Inl ZeroDivisionError \<longleftrightarrow> b = 0"
  by (auto simp: py_truediv_def split: py_float.splits)

lemma foldl_log_out: "out (foldl (\<lambda>w' kv. log_msg n l (f kv) w') w kvs) = out w"
  by (induction kvs arbitrary: w) simp_all

lemma log_performance_metrics_out [simp]: "out (log_performance_metrics m w) = out w"
  by (simp add: log_performance_metrics_def foldl_log_out)

text \<open>
  C5. When no trade was attempted, \<open>display_performance_metrics\<close> prints the one line
  \<open>No trades executed yet.\<close>, logs nothing and returns; and in no state does it raise
  \<open>ZeroDivisionError\<close>, the exception of a division by zero.
\<close>

theorem no_trades_no_division:
  "(trade_count b = 0 \<longrightarrow>
      display_performance_metrics b w = (Inr (), w\<lparr>out := out w @ [[Lit ''No trades executed yet.'']]\<rparr>))
   \<and> fst (display_performance_metrics b w) \<noteq> Inl ZeroDivisionError"
proof -
  have "success_rate b = Inl ZeroDivisionError \<Longrightarrow> trade_count b = 0"
    by (auto simp: success_rate_def py_truediv_ZeroDivisionError split: sum.splits)
  then show ?thesis
    by (auto simp: display_performance_metrics_def printing_def py_print_def Let_def split: sum.splits)
qed

theorem no_trades_no_division_witness:
  "trade_count new_bot = 0
   \<and> display_performance_metrics new_bot empty_world =
       (Inr (), \<lparr>trace = [], logs = [], out = [[Lit ''No trades executed yet.'']]\<rparr>)"
  using no_trades_no_division [of new_bot empty_world]
  by (simp add: new_bot_def empty_world_def)

text \<open>
  The report in a state where the counters are consistent and a trade was attempted:
  the rate is computed without an exception, and the line of the rate shows \<open>n\<close>
  hundredths, where \<open>n / 100\<close> is within half a hundredth (and the \<open>2 ^ - 45\<close> that the
  two float operations can add) of a hundred times the quotient of the counters.
\<close>

lemma display_performance_metrics_report:
  assumes "counters_consistent b" and "trade_count b \<noteq> 0"
  shows "\<exists>rate n. success_rate b = Inr rate \<and> format_2f rate = two_decimals n
           \<and> fst (display_performance_metrics b w) = Inr ()
           \<and> out (snd (display_performance_metrics b w)) = out w @
               [[Lit (CHR 0x0A # replicate 40 (CHR ''=''))],
                [Lit ''PERFORMANCE METRICS''],
                [Lit (replicate 40 (CHR ''=''))],
                [Lit ''Total Trades'', Lit '': '', Str (PInt (trade_count b))],
                [Lit ''Successful Trades'', Lit '': '', Str (PInt (successful_trades b))],
                [Lit ''Failed Trades'', Lit '': '', Str (PInt (failed_trades b))],
                [Lit ''Success Rate'', Lit '': '', Lit (two_decimals n @ ''%'')],
                [Lit (replicate 40 (CHR ''='') @ [CHR 0x0A])]]
           \<and> \<bar>of_nat n / 100 - 100 * of_int (successful_trades b) / of_int (trade_count b) :: rat\<bar>
                 \<le> 1 / 200 + 2 powi (- 45)
           \<and> (trade_count b = 3 \<and> successful_trades b = 2 \<longrightarrow> two_decimals n = ''66.67'')"
proof -
  from assms have c: "0 \<le> successful_trades b" "successful_trades b \<le> trade_count b" "0 < trade_count b"
    by (auto simp: counters_consistent_def)
  then obtain q where q: "success_rate b = Inr (Finite q)" "0 \<le> q"
      "\<bar>q - 100 * of_int (successful_trades b) / of_int (trade_count b)\<bar> \<le> 2 powi (- 45)"
    using success_rate_value by blast
  define n where "n = nat (round_half_even (q * 100))"
  have f: "format_2f (Finite q) = two_decimals n" "\<bar>of_nat n / 100 - q\<bar> \<le> 1 / 200"
    using format_2f_nonneg [OF q(2)] by (simp_all add: n_def)
  have d: "fst (display_performance_metrics b w) = Inr ()"
    using assms(2) q(1) by (simp add: display_performance_metrics_def Let_def)
  have o: "out (snd (display_performance_metrics b w)) = out w @
               [[Lit (CHR 0x0A # replicate 40 (CHR ''=''))],
                [Lit ''PERFORMANCE METRICS''],
                [Lit (replicate 40 (CHR ''=''))],
                [Lit ''Total Trades'', Lit '': '', Str (PInt (trade_count b))],
                [Lit ''Successful Trades'', Lit '': '', Str (PInt (successful_trades b))],
                [Lit ''Failed Trades'', Lit '': '', Str (PInt (failed_trades b))],
                [Lit ''Success Rate'', Lit '': '', Lit (two_decimals n @ ''%'')],
                [Lit (replicate 40 (CHR ''='') @ [CHR 0x0A])]]"
    using assms(2) q(1) f(1)
    by (simp add: display_performance_metrics_def Let_def printing_out)
  have e: "\<bar>of_nat n / 100 - 100 * of_int (successful_trades b) / of_int (trade_count b) :: rat\<bar>
             \<le> 1 / 200 + 2 powi (- 45)"
    using f(2) q(3) by linarith
  have t: "two_decimals n = ''66.67''" if "trade_count b = 3 \<and> successful_trades b = 2"
  proof -
    from that have "success_rate b = Inr (Finite (2345624805922133 / 35184372088832))"
      by (simp add: success_rate_def py_truediv_2_3 mul_100)
    with q(1) have "q = 2345624805922133 / 35184372088832" by simp
    then have "n = 6667" unfolding n_def by (simp only: round_rate)
    then show ?thesis by (simp only: two_decimals_6667)
  qed
  from q(1) f(1) d o e t show ?thesis by blast
qed

lemma after_three_orders_counters:
  "after_three_orders = \<lparr>running = False, trade_count = 3, successful_trades = 2, failed_trades = 1\<rparr>"
  by (simp add: after_three_orders_def new_bot_def empty_world_def scripted_def three_answers_def
      example_order_def bot_place_market_order_def bot_place_limit_order_def place_market_order_def
      place_limit_order_def sdk_call_def log_msg_def py_print_def log_trade_action_def
      market_order_failed_def limit_order_failed_def log_error_def Let_def is_BinanceAPIException_def)

text \<open>
  C6. In every state with consistent counters and at least one attempt, the report
  returns, its line \<open>Success Rate\<close> shows the two decimals nearest to
  \<open>successful_trades / trade_count * 100\<close> as the floats compute it, and with two
  successes in three attempts the line reads \<open>66.67%\<close>.
\<close>

theorem success_rate_reported:
  assumes "counters_consistent b" and "trade_count b \<noteq> 0"
  shows "\<exists>rate n. success_rate b = Inr rate \<and> format_2f rate = two_decimals n
           \<and> fst (display_performance_metrics b w) = Inr ()
           \<and> out (snd (display_performance_metrics b w)) = out w @
               [[Lit (CHR 0x0A # replicate 40 (CHR ''=''))],
                [Lit ''PERFORMANCE METRICS''],
                [Lit (replicate 40 (CHR ''=''))],
                [Lit ''Total Trades'', Lit '': '', Str (PInt (trade_count b))],
                [Lit ''Successful Trades'', Lit '': '', Str (PInt (successful_trades b))],
                [Lit ''Failed Trades'', Lit '': '', Str (PInt (failed_trades b))],
                [Lit ''Success Rate'', Lit '': '', Lit (two_decimals n @ ''%'')],
                [Lit (replicate 40 (CHR ''='') @ [CHR 0x0A])]]
           \<and> \<bar>of_nat n / 100 - 100 * of_int (successful_trades b) / of_int (trade_count b) :: rat\<bar>
                 \<le> 1 / 200 + 2 powi (- 45)
           \<and> (trade_count b = 3 \<and> successful_trades b = 2 \<longrightarrow> two_decimals n = ''66.67'')"
  using assms by (rule display_performance_metrics_report)

theorem success_rate_reported_witness:
  "counters_consistent after_three_orders \<and> trade_count after_three_orders \<noteq> 0
   \<and> out (snd (display_performance_metrics after_three_orders empty_world)) =
       [[Lit (CHR 0x0A # replicate 40 (CHR ''=''))],
        [Lit ''PERFORMANCE METRICS''],
        [Lit (replicate 40 (CHR ''=''))],
        [Lit ''Total Trades'', Lit '': '', Str (PInt 3)],
        [Lit ''Successful Trades'', Lit '': '', Str (PInt 2)],
        [Lit ''Failed Trades'', Lit '': '', Str (PInt 1)],
        [Lit ''Success Rate'', Lit '': '', Lit ''66.67%''],
        [Lit (replicate 40 (CHR ''='') @ [CHR 0x0A])]]"
  using success_rate_reported [of after_three_orders empty_world]
  by (auto simp: after_three_orders_counters counters_consistent_def empty_world_def)

subsection \<open>Starting and stopping\<close>







subsection \<open>The shell\<close>

text \<open>Stripping a stripped line changes nothing, so the shell parses the line it read.\<close>

lemma trim_end_keeps_start:
  assumes "dropWhile P t = t"
  shows "dropWhile P (rev (dropWhile P (rev t))) = rev (dropWhile P (rev t))"
proof (cases "rev (dropWhile P (rev t))")
  case Nil
  show ?thesis unfolding Nil by simp
next
  case (Cons x xs)
  have "t = rev (dropWhile P (rev t)) @ rev (takeWhile P (rev t))"
    by (metis rev_append rev_rev_ident takeWhile_dropWhile_id)
  with Cons have "t = x # (xs @ rev (takeWhile P (rev t)))" by simp
  with assms have "\<not> P x"
    by (metis dropWhile_eq_Cons_conv)
  with Cons show ?thesis by simp
qed

lemma py_strip_idem: "py_strip (py_strip s) = py_strip s"
proof -
  define t where "t = dropWhile py_isspace s"
  have "dropWhile py_isspace t = t" by (simp add: t_def)
  then have "dropWhile py_isspace (rev (dropWhile py_isspace (rev t))) = rev (dropWhile py_isspace (rev t))"
    by (rule trim_end_keeps_start)
  then show ?thesis
    by (simp add: py_strip_def t_def)
qed

lemma parse_command_strip: "parse_command (py_strip line) = parse_command line"
  by (simp add: parse_command_def py_strip_idem)

lemma py_split_empty: "py_split [] = []"
  by (simp add: py_split_def)

lemma float_of_string_error: "float_of_string s = Inl e \<Longrightarrow> \<exists>m. e = ValueError m"
  by (auto simp: float_of_string_def Let_def split: prod.splits if_splits option.splits)

lemma handle_buy_market_bad_quantity:
  "2 \<le> length args \<Longrightarrow> float_of_string (args ! 1) = Inl (ValueError m) \<Longrightarrow>
   handle_buy_market rem args b w =
     (Inr (), b, py_print [Lit Fore_RED, Lit (cross_mark @ '' Invalid quantity. Please enter a number.'')] w)"
  by (simp add: handle_buy_market_def Let_def)

lemma handle_sell_market_bad_quantity:
  "2 \<le> length args \<Longrightarrow> float_of_string (args ! 1) = Inl (ValueError m) \<Longrightarrow>
   handle_sell_market rem args b w =
     (Inr (), b, py_print [Lit Fore_RED, Lit (cross_mark @ '' Invalid quantity. Please enter a number.'')] w)"
  by (simp add: handle_sell_market_def Let_def)

lemma dispatch_buy_market: "dispatch rem ''buy_market'' args b w = handle_buy_market rem args b w"
  by (simp add: dispatch_def)

lemma dispatch_sell_market: "dispatch rem ''sell_market'' args b w = handle_sell_market rem args b w"
  by (simp add: dispatch_def)

text \<open>The words of an ASCII line are ASCII, and so is the verb in lower case.\<close>

lemma split_from_chars: "x \<in> set (split_from cur s) \<Longrightarrow> set x \<subseteq> set cur \<union> set s"
proof (induction s arbitrary: cur)
  case Nil
  then show ?case by (auto split: if_splits)
next
  case (Cons c cs)
  show ?case
  proof (cases "py_isspace c")
    case False
    with Cons.prems have "x \<in> set (split_from (c # cur) cs)" by simp
    from Cons.IH [OF this] show ?thesis by auto
  next
    case True
    show ?thesis
    proof (cases "cur = []")
      case True
      with \<open>py_isspace c\<close> Cons.prems have "x \<in> set (split_from [] cs)" by simp
      from Cons.IH [OF this] show ?thesis by auto
    next
      case False
      with \<open>py_isspace c\<close> Cons.prems have "x = rev cur \<or> x \<in> set (split_from [] cs)" by simp
      then show ?thesis
      proof
        assume "x = rev cur"
        then show ?thesis by auto
      next
        assume "x \<in> set (split_from [] cs)"
        from Cons.IH [OF this] show ?thesis by auto
      qed
    qed
  qed
qed

lemma py_strip_chars: "set (py_strip s) \<subseteq> set s"
proof -
  have "set (dropWhile py_isspace (rev (dropWhile py_isspace s))) \<subseteq> set (rev (dropWhile py_isspace s))"
    by (meson set_dropWhileD subsetI)
  also have "\<dots> \<subseteq> set s"
    using set_dropWhileD [of _ py_isspace s] by auto
  finally show ?thesis by (simp add: py_strip_def)
qed

lemma lower_char_ascii: "is_ascii c \<Longrightarrow> is_ascii (lower_char c)"
  by (auto simp: is_ascii_def lower_char_def Let_def)

lemma parse_command_ascii:
  assumes "list_all is_ascii line" and "parse_command line = (Some cmd, args)"
  shows "list_all is_ascii cmd \<and> list_all (list_all is_ascii) args"
proof -
  from assms(2) obtain c where c: "py_split (py_strip line) = c # args" "cmd = py_lower c"
    by (auto simp: parse_command_def split: list.splits)
  have a: "list_all is_ascii x" if "x \<in> set (c # args)" for x
  proof -
    from that c(1) have "x \<in> set (split_from [] (py_strip line))" by (simp add: py_split_def)
    then have "set x \<subseteq> set (py_strip line)" using split_from_chars by fastforce
    then have "set x \<subseteq> set line" using py_strip_chars by blast
    with assms(1) show ?thesis by (auto simp: list_all_iff)
  qed
  have "list_all is_ascii c" using a by simp
  then have "list_all is_ascii cmd"
    by (auto simp: c(2) py_lower_def list_all_iff lower_char_ascii)
  moreover have "list_all (list_all is_ascii) args"
    unfolding list_all_iff [of "list_all is_ascii"] using a by auto
  ultimately show ?thesis by simp
qed

text \<open>
  C7. When a line of ASCII characters has \<open>buy_market\<close> or \<open>sell_market\<close> for its
  first word, in any case of letters, at least two words follow, and \<open>float\<close> rejects
  the second of them, the turn of the loop prints the line
  \<open>Invalid quantity. Please enter a number.\<close> and goes on: the orchestrator is
  unchanged, no call reached the SDK and nothing was logged.
\<close>

theorem non_numeric_quantity_rejected:
  assumes "parse_command line = (Some cmd, args)"
    and "cmd = ''buy_market'' \<or> cmd = ''sell_market''"
    and "2 \<le> length args"
    and "float_of_string (args ! 1) = Inl e"
    and "list_all is_ascii line"
  shows "run_command rem line b w =
           (Continue, b,
            py_print [Lit Fore_RED, Lit (cross_mark @ '' Invalid quantity. Please enter a number.'')] w)"
proof -
  have p: "parse_command (py_strip line) = (Some cmd, args)"
    using assms(1) by (simp add: parse_command_strip)
  have ne: "py_strip line \<noteq> []"
    using assms(1) by (auto simp: parse_command_def py_split_empty)
  obtain m where m: "float_of_string (args ! 1) = Inl (ValueError m)"
    using assms(4) float_of_string_error by blast
  have d: "dispatch rem cmd args b w =
             (Inr (), b, py_print [Lit Fore_RED, Lit (cross_mark @ '' Invalid quantity. Please enter a number.'')] w)"
    using assms(2)
  proof
    assume "cmd = ''buy_market''"
    then show ?thesis
      using assms(3) m by (simp add: dispatch_buy_market handle_buy_market_bad_quantity)
  next
    assume "cmd = ''sell_market''"
    then show ?thesis
      using assms(3) m by (simp add: dispatch_sell_market handle_sell_market_bad_quantity)
  qed
  have c: "cmd \<noteq> [] \<and> cmd \<noteq> ''quit'' \<and> cmd \<noteq> ''exit''"
    using assms(2) by auto
  show ?thesis
    using c by (simp add: run_command_def Let_def p ne d)
qed

lemma parse_example: "parse_command ''buy_market BTCUSDT abc'' = (Some ''buy_market'', [''BTCUSDT'', ''abc''])"
  by (simp add: parse_command_def py_strip_def py_split_def py_isspace_def py_lower_def lower_char_def)

lemma float_abc: "float_of_string ''abc'' = Inl (ValueError (''could not convert string to float: '' @ py_repr ''abc''))"
  by (simp add: float_of_string_def numeral_strip_def numeral_space_def split_sign_def is_digit_def py_lower_def
      lower_char_def parse_decimal_def)

theorem non_numeric_quantity_rejected_witness:
  "parse_command ''buy_market BTCUSDT abc'' = (Some ''buy_market'', [''BTCUSDT'', ''abc''])
   \<and> float_of_string ([''BTCUSDT'', ''abc''] ! 1) = Inl (ValueError (''could not convert string to float: '' @ py_repr ''abc''))
   \<and> list_all is_ascii ''buy_market BTCUSDT abc''
   \<and> run_command (answers example_exchange_info) ''buy_market BTCUSDT abc'' new_bot empty_world =
       (Continue, new_bot,
        \<lparr>trace = [], logs = [],
         out = [[Lit Fore_RED, Lit (cross_mark @ '' Invalid quantity. Please enter a number.'')]]\<rparr>)"
  using non_numeric_quantity_rejected [of "''buy_market BTCUSDT abc''" "''buy_market''" "[''BTCUSDT'', ''abc'']"
          "ValueError (''could not convert string to float: '' @ py_repr ''abc'')" "answers example_exchange_info" new_bot empty_world]
        parse_example float_abc
  by (simp add: empty_world_def py_print_def is_ascii_def)

end
